theory Spec2Isabelle
  imports Main "HOL-Library.AList"
begin

section \<open>The network location switcher: a shallow embedding\<close>

text \<open>
  The daemon exists twice: the standalone script \<^verbatim>\<open>network-location-switcher.py\<close> and the
  package module \<^verbatim>\<open>network_loc_switcher/network_loc_switcher.py\<close>. Both are embedded here.
  Where the two files hold the same text (\<^verbatim>\<open>log\<close>, \<^verbatim>\<open>run_command\<close>, the probes,
  \<^verbatim>\<open>get_current_location\<close>) one definition stands for both; where they differ
  (\<^verbatim>\<open>validate_config\<close>, \<^verbatim>\<open>switch_location\<close>, and so \<^verbatim>\<open>network_changed\<close>) the script's
  definition carries the suffix \<open>_script\<close>.

  Text is a \<^typ>\<open>string\<close>: the bytes of its UTF-8 encoding. Where Python classifies or
  counts characters (\<^verbatim>\<open>strip\<close>, \<^verbatim>\<open>splitlines\<close>, \<^verbatim>\<open>find\<close>, slices) the model works
  on the code points of the text, each kept as its bytes.
\<close>

subsection \<open>Python's string methods\<close>

definition startswith :: "string \<Rightarrow> string \<Rightarrow> bool" where
  "startswith s p = (take (length p) s = p)"

text \<open>
  The code points of a text: a byte 10xxxxxx continues the code point before it, any other
  byte starts one.
\<close>

definition is_continuation :: "char \<Rightarrow> bool" where
  "is_continuation c = (128 \<le> (of_char c :: nat) \<and> (of_char c :: nat) < 192)"

fun codepoints_from :: "string \<Rightarrow> string \<Rightarrow> string list" where
  "codepoints_from acc [] = (if acc = [] then [] else [rev acc])"
| "codepoints_from acc (c # cs) =
     (if acc = [] \<or> is_continuation c then codepoints_from (c # acc) cs
      else rev acc # codepoints_from [c] cs)"

definition codepoints :: "string \<Rightarrow> string list" where
  "codepoints s = codepoints_from [] s"

text \<open>
  \<^verbatim>\<open>str.isspace\<close> on one code point: U+0009 to U+000D, U+001C to U+001F, U+0020, U+0085,
  U+00A0, U+1680, U+2000 to U+200A, U+2028, U+2029, U+202F, U+205F and U+3000.
\<close>

definition whitespace :: "string list" where
  "whitespace =
     [[CHR 0x09], [CHR 0x0A], [CHR 0x0B], [CHR 0x0C], [CHR 0x0D],
      [CHR 0x1C], [CHR 0x1D], [CHR 0x1E], [CHR 0x1F], [CHR 0x20],
      [CHR 0xC2, CHR 0x85], [CHR 0xC2, CHR 0xA0], [CHR 0xE1, CHR 0x9A, CHR 0x80],
      [CHR 0xE2, CHR 0x80, CHR 0x80], [CHR 0xE2, CHR 0x80, CHR 0x81],
      [CHR 0xE2, CHR 0x80, CHR 0x82], [CHR 0xE2, CHR 0x80, CHR 0x83],
      [CHR 0xE2, CHR 0x80, CHR 0x84], [CHR 0xE2, CHR 0x80, CHR 0x85],
      [CHR 0xE2, CHR 0x80, CHR 0x86], [CHR 0xE2, CHR 0x80, CHR 0x87],
      [CHR 0xE2, CHR 0x80, CHR 0x88], [CHR 0xE2, CHR 0x80, CHR 0x89],
      [CHR 0xE2, CHR 0x80, CHR 0x8A], [CHR 0xE2, CHR 0x80, CHR 0xA8],
      [CHR 0xE2, CHR 0x80, CHR 0xA9], [CHR 0xE2, CHR 0x80, CHR 0xAF],
      [CHR 0xE2, CHR 0x81, CHR 0x9F], [CHR 0xE3, CHR 0x80, CHR 0x80]]"

definition py_isspace :: "string \<Rightarrow> bool" where
  "py_isspace cp = (cp \<in> set whitespace)"

text \<open>\<^verbatim>\<open>s.strip()\<close>.\<close>

definition py_strip :: "string \<Rightarrow> string" where
  "py_strip s =
     concat (rev (dropWhile py_isspace (rev (dropWhile py_isspace (codepoints s)))))"

text \<open>\<^verbatim>\<open>s.lstrip(chars)\<close> and \<^verbatim>\<open>s.rstrip(chars)\<close>.\<close>

definition py_lstrip_chars :: "string \<Rightarrow> string \<Rightarrow> string" where
  "py_lstrip_chars chars s = dropWhile (\<lambda>c. c \<in> set chars) s"

definition py_rstrip_chars :: "string \<Rightarrow> string \<Rightarrow> string" where
  "py_rstrip_chars chars s = rev (dropWhile (\<lambda>c. c \<in> set chars) (rev s))"

text \<open>\<^verbatim>\<open>sub in s\<close>.\<close>

fun py_in :: "string \<Rightarrow> string \<Rightarrow> bool" where
  "py_in sub [] = (sub = [])"
| "py_in sub (c # cs) = (startswith (c # cs) sub \<or> py_in sub cs)"

text \<open>
  \<^verbatim>\<open>s.replace(old, new)\<close> for a non-empty \<open>old\<close>: the occurrences are replaced from the left,
  without overlap. The counter is the number of characters of a matched occurrence still to
  be skipped.
\<close>

fun replace_from :: "string \<Rightarrow> string \<Rightarrow> nat \<Rightarrow> string \<Rightarrow> string" where
  "replace_from old new k [] = []"
| "replace_from old new (Suc k) (c # cs) = replace_from old new k cs"
| "replace_from old new 0 (c # cs) =
     (if startswith (c # cs) old then new @ replace_from old new (length old - 1) cs
      else c # replace_from old new 0 cs)"

definition py_replace :: "string \<Rightarrow> string \<Rightarrow> string \<Rightarrow> string" where
  "py_replace s old new = replace_from old new 0 s"

text \<open>
  \<^verbatim>\<open>s.splitlines()\<close>: the text is cut at LF, CR, CR LF, VT, FF, FS, GS, RS, U+0085,
  U+2028 and U+2029; the boundaries are dropped and a final boundary opens no empty last
  line. The flag says that the code point before was a CR, whose LF belongs to the same
  boundary.
\<close>

definition linebreaks :: "string list" where
  "linebreaks =
     [[CHR 0x0A], [CHR 0x0B], [CHR 0x0C], [CHR 0x0D], [CHR 0x1C], [CHR 0x1D], [CHR 0x1E],
      [CHR 0xC2, CHR 0x85], [CHR 0xE2, CHR 0x80, CHR 0xA8], [CHR 0xE2, CHR 0x80, CHR 0xA9]]"

definition is_linebreak :: "string \<Rightarrow> bool" where
  "is_linebreak cp = (cp \<in> set linebreaks)"

fun splitlines_from :: "string \<Rightarrow> bool \<Rightarrow> string list \<Rightarrow> string list" where
  "splitlines_from acc after_cr [] = (if acc = [] then [] else [acc])"
| "splitlines_from acc after_cr (cp # cps) =
     (if after_cr \<and> cp = [CHR 0x0A] then splitlines_from acc False cps
      else if is_linebreak cp then acc # splitlines_from [] (cp = [CHR 0x0D]) cps
      else splitlines_from (acc @ cp) False cps)"

definition splitlines :: "string \<Rightarrow> string list" where
  "splitlines s = splitlines_from [] False (codepoints s)"

text \<open>\<^verbatim>\<open>s.find(c)\<close> for one ASCII character: the index of its first code point, or -1.\<close>

fun find_codepoint :: "string list \<Rightarrow> char \<Rightarrow> int" where
  "find_codepoint [] c = -1"
| "find_codepoint (cp # cps) c =
     (if cp = [c] then 0 else (let r = find_codepoint cps c in if r < 0 then -1 else r + 1))"

definition py_find :: "string \<Rightarrow> char \<Rightarrow> int" where
  "py_find s c = find_codepoint (codepoints s) c"

text \<open>
  \<^verbatim>\<open>s[a:b]\<close>: the indices count code points; a negative index counts from the end, and
  both ends are clamped to the string.
\<close>

definition slice_index :: "nat \<Rightarrow> int \<Rightarrow> nat" where
  "slice_index n i = (if i < 0 then nat (max 0 (int n + i)) else min (nat i) n)"

definition py_slice :: "string \<Rightarrow> int \<Rightarrow> int \<Rightarrow> string" where
  "py_slice s a b =
     (let cps = codepoints s;
          lo = slice_index (length cps) a; hi = slice_index (length cps) b
      in concat (take (hi - lo) (drop lo cps)))"

text \<open>\<^verbatim>\<open>os.path.dirname\<close> and \<^verbatim>\<open>os.path.join\<close> (of a relative second part) of posixpath.\<close>

definition dirname :: "string \<Rightarrow> string" where
  "dirname p =
     (let head = rev (dropWhile (\<lambda>c. c \<noteq> CHR ''/'') (rev p))
      in if head \<noteq> [] \<and> head \<noteq> replicate (length head) (CHR ''/'')
         then py_rstrip_chars ''/'' head else head)"

definition path_join :: "string \<Rightarrow> string \<Rightarrow> string" where
  "path_join a b = (if a = [] \<or> last a = CHR ''/'' then a @ b else a @ ''/'' @ b)"

text \<open>How an f-string prints an \<^verbatim>\<open>Optional[str]\<close>.\<close>

definition fmt_optional :: "string option \<Rightarrow> string" where
  "fmt_optional v = (case v of None \<Rightarrow> ''None'' | Some s \<Rightarrow> s)"

text \<open>The truth value of an \<^verbatim>\<open>Optional[str]\<close>: neither \<^verbatim>\<open>None\<close> nor the empty string.\<close>

definition truthy :: "string option \<Rightarrow> bool" where
  "truthy v = (case v of None \<Rightarrow> False | Some s \<Rightarrow> s \<noteq> [])"

subsection \<open>Exceptions, the outside world, effects\<close>

text \<open>Each exception carries the text \<^verbatim>\<open>str(e)\<close> gives.\<close>

datatype exn =
    NameError string
  | TypeError string
  | KeyError string
  | OSError string
  | CalledProcessError string
  | OtherException string

fun exn_str :: "exn \<Rightarrow> string" where
  "exn_str (NameError m) = m"
| "exn_str (TypeError m) = m"
| "exn_str (KeyError m) = m"
| "exn_str (OSError m) = m"
| "exn_str (CalledProcessError m) = m"
| "exn_str (OtherException m) = m"

fun is_OSError :: "exn \<Rightarrow> bool" where
  "is_OSError (OSError m) = True"
| "is_OSError e = False"

fun is_CalledProcessError :: "exn \<Rightarrow> bool" where
  "is_CalledProcessError (CalledProcessError m) = True"
| "is_CalledProcessError e = False"

text \<open>\<^verbatim>\<open>except Exception\<close> catches every exception of the model.\<close>

definition is_Exception :: "exn \<Rightarrow> bool" where
  "is_Exception e = True"

text \<open>
  A child process is started from a shell line (\<^verbatim>\<open>shell=True\<close>) or from an argument list.
  It exits with a return code and its standard output, or starting it (or decoding its
  output) raises.
\<close>

datatype command = Shell string | Argv "string list"

datatype proc_result = Exited int string | Raised exn

text \<open>
  What the program does to the outside, in the order it does it: a child process it starts,
  a line (time stamp and message) it appends to the log file or, when that fails, prints on
  the standard error stream with a warning after it, a directory it creates.
\<close>

datatype event =
    Exec command
  | FileLog string string string
  | StderrLog string string
  | StderrWarning string
  | Makedirs string

text \<open>
  The collaborators. Each answer may depend on everything the program has done so far, so
  the same question can get another answer later (a link that comes up, a profile that has
  been switched). \<open>cpe_text\<close> is the text of the \<^verbatim>\<open>CalledProcessError\<close> of a command and a
  return code, \<open>script_dir\<close> the directory of the running file, \<open>home_dir\<close> what \<^verbatim>\<open>~\<close> expands to.
\<close>

record world =
  run_process :: "event list \<Rightarrow> command \<Rightarrow> proc_result"
  strftime :: "event list \<Rightarrow> string"
  append_file :: "event list \<Rightarrow> string \<Rightarrow> string option"
  path_exists :: "event list \<Rightarrow> string \<Rightarrow> bool"
  makedirs :: "event list \<Rightarrow> string \<Rightarrow> string option"
  executable_file :: "event list \<Rightarrow> string \<Rightarrow> bool"
  euid_is_root :: "event list \<Rightarrow> bool"
  cpe_text :: "command \<Rightarrow> int \<Rightarrow> string"
  script_dir :: string
  home_dir :: string

text \<open>
  A statement of the program: given the events so far, the value it returns or the
  exception it raises, and the events it adds.
\<close>

type_synonym 'a prog = "event list \<Rightarrow> (exn + 'a) \<times> event list"

definition ret :: "'a \<Rightarrow> 'a prog" where
  "ret x = (\<lambda>h. (Inr x, []))"

definition raise :: "exn \<Rightarrow> 'a prog" where
  "raise e = (\<lambda>h. (Inl e, []))"

text \<open>One statement after another: an exception of the first skips the second.\<close>

definition and_then :: "'a prog \<Rightarrow> ('a \<Rightarrow> 'b prog) \<Rightarrow> 'b prog" where
  "and_then m f =
     (\<lambda>h. case m h of
        (Inl e, ev) \<Rightarrow> (Inl e, ev)
      | (Inr x, ev) \<Rightarrow> (case f x (h @ ev) of (r, ev') \<Rightarrow> (r, ev @ ev')))"

text \<open>\<^verbatim>\<open>try: m  except <catches> as e: handler e\<close>.\<close>

definition try_except :: "'a prog \<Rightarrow> (exn \<Rightarrow> bool) \<Rightarrow> (exn \<Rightarrow> 'a prog) \<Rightarrow> 'a prog" where
  "try_except m catches handler =
     (\<lambda>h. case m h of
        (Inl e, ev) \<Rightarrow>
          if catches e then (case handler e (h @ ev) of (r, ev') \<Rightarrow> (r, ev @ ev'))
          else (Inl e, ev)
      | (Inr x, ev) \<Rightarrow> (Inr x, ev))"

text \<open>The child processes among some events, and the messages logged among them.\<close>

fun execs :: "event list \<Rightarrow> command list" where
  "execs [] = []"
| "execs (Exec c # evs) = c # execs evs"
| "execs (ev # evs) = execs evs"

fun logged :: "event list \<Rightarrow> string list" where
  "logged [] = []"
| "logged (FileLog path ts msg # evs) = msg # logged evs"
| "logged (StderrLog ts msg # evs) = msg # logged evs"
| "logged (ev # evs) = logged evs"

text \<open>
  The event loop hands each trigger to the callback and takes the next one when the
  callback has returned: \<open>n\<close> triggers run it \<open>n\<close> times in a row.
\<close>

fun triggers :: "nat \<Rightarrow> unit prog \<Rightarrow> unit prog" where
  "triggers 0 callback = ret ()"
| "triggers (Suc n) callback = and_then callback (\<lambda>_. triggers n callback)"

subsection \<open>\<^verbatim>\<open>log\<close>\<close>

text \<open>
  \<^verbatim>\<open>log\<close> reads the module global \<^verbatim>\<open>LOG_FILE\<close> when it is called. The global is bound by the
  assignment \<^verbatim>\<open>LOG_FILE = CONFIG["log_file"]\<close>, which runs after \<^verbatim>\<open>validate_config\<close>
  has returned; \<open>None\<close> is the unbound name, whose \<^verbatim>\<open>NameError\<close> the handler for
  \<^verbatim>\<open>OSError\<close> does not catch. A failed write goes to the standard error stream.
\<close>

definition log_events :: "world \<Rightarrow> string \<Rightarrow> string \<Rightarrow> event list \<Rightarrow> event list" where
  "log_events w path msg h =
     (case append_file w h path of
        None \<Rightarrow> [FileLog path (strftime w h) msg]
      | Some err \<Rightarrow>
          [StderrLog (strftime w h) msg,
           StderrWarning (''Warning: Could not write to log file '' @ path @ '': '' @ err)])"

definition log :: "world \<Rightarrow> string option \<Rightarrow> string \<Rightarrow> unit prog" where
  "log w log_file msg =
     (case log_file of
        None \<Rightarrow> raise (NameError ''name 'LOG_FILE' is not defined'')
      | Some path \<Rightarrow> (\<lambda>h. (Inr (), log_events w path msg h)))"

subsection \<open>Child processes and \<^verbatim>\<open>run_command\<close>\<close>

text \<open>\<^verbatim>\<open>subprocess.run(cmd, check=...)\<close>, giving the return code.\<close>

definition subprocess_run :: "world \<Rightarrow> command \<Rightarrow> bool \<Rightarrow> int prog" where
  "subprocess_run w cmd check =
     (\<lambda>h. case run_process w h cmd of
        Raised e \<Rightarrow> (Inl e, [Exec cmd])
      | Exited rc out \<Rightarrow>
          if check \<and> rc \<noteq> 0 then (Inl (CalledProcessError (cpe_text w cmd rc)), [Exec cmd])
          else (Inr rc, [Exec cmd]))"

text \<open>\<^verbatim>\<open>subprocess.check_output(cmd, text=True)\<close>.\<close>

definition check_output :: "world \<Rightarrow> command \<Rightarrow> string prog" where
  "check_output w cmd =
     (\<lambda>h. case run_process w h cmd of
        Raised e \<Rightarrow> (Inl e, [Exec cmd])
      | Exited rc out \<Rightarrow>
          if rc \<noteq> 0 then (Inl (CalledProcessError (cpe_text w cmd rc)), [Exec cmd])
          else (Inr out, [Exec cmd]))"

definition run_command :: "world \<Rightarrow> command \<Rightarrow> string prog" where
  "run_command w cmd =
     try_except (and_then (check_output w cmd) (\<lambda>out. ret (py_strip out)))
       is_CalledProcessError (\<lambda>e. ret [])"

subsection \<open>The globals of the running daemon\<close>

text \<open>
  \<^verbatim>\<open>SSID_LOCATION_MAP\<close>, \<^verbatim>\<open>DEFAULT_WIFI_LOCATION\<close>, \<^verbatim>\<open>ETHERNET_LOCATION\<close> and \<^verbatim>\<open>LOG_FILE\<close>,
  as the module binds them from the validated configuration before the daemon runs. The
  type of a profile is left open where the code does not look into it.
\<close>

record 'p globals =
  SSID_LOCATION_MAP :: "string \<rightharpoonup> 'p"
  DEFAULT_WIFI_LOCATION :: 'p
  ETHERNET_LOCATION :: 'p
  LOG_FILE :: string

definition squote :: string where
  "squote = [CHR 0x27]"

definition dquote :: string where
  "dquote = [CHR 0x22]"

definition backslash :: string where
  "backslash = [CHR 0x5C]"

text \<open>The arrow U+2192 of the log line of a successful switch, in UTF-8.\<close>

definition arrow :: string where
  "arrow = [CHR 0xE2, CHR 0x86, CHR 0x92]"

subsection \<open>The probes\<close>

definition list_ports_cmd :: command where
  "list_ports_cmd = Shell ''/usr/sbin/networksetup -listallhardwareports''"

text \<open>
  The loop of \<^verbatim>\<open>get_wifi_interface\<close>: the first line that starts a Wi-Fi port and is
  followed by a device line ends the search.
\<close>

fun find_wifi_device :: "string list \<Rightarrow> string option" where
  "find_wifi_device [] = None"
| "find_wifi_device (line # rest) =
     (if startswith line ''Hardware Port: Wi-Fi''
         \<and> (case rest of [] \<Rightarrow> False | nxt # _ \<Rightarrow> startswith nxt ''Device:'')
      then (case rest of [] \<Rightarrow> None
            | nxt # _ \<Rightarrow> Some (py_strip (py_replace nxt ''Device:'' [])))
      else find_wifi_device rest)"

definition get_wifi_interface :: "world \<Rightarrow> 'p globals \<Rightarrow> string option prog" where
  "get_wifi_interface w g =
     and_then (run_command w list_ports_cmd) (\<lambda>ports_output.
       if ports_output = [] then
         and_then (log w (Some (LOG_FILE g)) ''Could not get hardware ports list.'')
           (\<lambda>_. ret None)
       else
         (let wifi_device = find_wifi_device (splitlines ports_output)
          in if truthy wifi_device then ret wifi_device
             else and_then (log w (Some (LOG_FILE g)) ''Could not detect Wi-Fi interface.'')
                    (\<lambda>_. ret None)))"

definition preferred_networks_cmd :: "string \<Rightarrow> command" where
  "preferred_networks_cmd wifi_iface =
     Argv [''/usr/sbin/networksetup'', ''-listpreferredwirelessnetworks'', wifi_iface]"

definition second_line_ssid :: "string \<Rightarrow> string option" where
  "second_line_ssid output =
     (let lines = splitlines output
      in if length lines \<ge> 2 then Some (py_lstrip_chars [CHR 0x09] (py_strip (lines ! 1)))
         else None)"

definition get_current_ssid :: "world \<Rightarrow> 'p globals \<Rightarrow> string option prog" where
  "get_current_ssid w g =
     and_then (get_wifi_interface w g) (\<lambda>wifi_iface.
       case wifi_iface of
         None \<Rightarrow> ret None
       | Some iface \<Rightarrow>
           if iface = [] then ret None
           else and_then (run_command w (preferred_networks_cmd iface)) (\<lambda>output.
                  if output = [] then ret None else ret (second_line_ssid output)))"

text \<open>The device names \<^verbatim>\<open>ethernet_active\<close> collects from the port listing.\<close>

fun ethernet_ports :: "string option \<Rightarrow> string list \<Rightarrow> string list" where
  "ethernet_ports wifi_iface [] = []"
| "ethernet_ports wifi_iface (line # rest) =
     (if startswith line ''Device:'' then
        (let device = py_strip (py_replace line ''Device:'' [])
         in if Some device \<noteq> wifi_iface \<and> device \<noteq> ''lo0'' \<and> startswith device ''en''
            then device # ethernet_ports wifi_iface rest
            else ethernet_ports wifi_iface rest)
      else ethernet_ports wifi_iface rest)"

definition ifconfig_cmd :: "string \<Rightarrow> command" where
  "ifconfig_cmd port = Shell (''/sbin/ifconfig '' @ port)"

text \<open>The second loop of \<^verbatim>\<open>ethernet_active\<close>: the first active port ends it.\<close>

fun check_ports :: "world \<Rightarrow> 'p globals \<Rightarrow> string list \<Rightarrow> bool prog" where
  "check_ports w g [] = ret False"
| "check_ports w g (port # rest) =
     and_then (run_command w (ifconfig_cmd port)) (\<lambda>if_output.
       if py_in ''status: active'' if_output \<and> py_in ''inet '' if_output then
         and_then (log w (Some (LOG_FILE g)) (''Found active Ethernet interface: '' @ port))
           (\<lambda>_. ret True)
       else check_ports w g rest)"

definition ethernet_active :: "world \<Rightarrow> 'p globals \<Rightarrow> bool prog" where
  "ethernet_active w g =
     and_then (get_wifi_interface w g) (\<lambda>wifi_iface.
       and_then (run_command w list_ports_cmd) (\<lambda>ports_output.
         if ports_output = [] then ret False
         else check_ports w g (ethernet_ports wifi_iface (splitlines ports_output))))"

definition wifi_status_cmd :: "string \<Rightarrow> command" where
  "wifi_status_cmd iface =
     Shell (''/sbin/ifconfig '' @ iface @ '' | grep '' @ squote @ ''status: active'' @ squote)"

definition wifi_active :: "world \<Rightarrow> 'p globals \<Rightarrow> bool prog" where
  "wifi_active w g =
     and_then (get_wifi_interface w g) (\<lambda>iface.
       case iface of
         None \<Rightarrow> ret False
       | Some i \<Rightarrow>
           if i = [] then ret False
           else and_then (run_command w (wifi_status_cmd i)) (\<lambda>output.
                  ret (py_in ''status: active'' output)))"

subsection \<open>The active-profile reader\<close>

definition scselect_cmd :: command where
  "scselect_cmd = Argv [''/usr/sbin/scselect'']"

text \<open>The loop of \<^verbatim>\<open>get_current_location\<close> over the lines of the listing.\<close>

fun active_location :: "string list \<Rightarrow> string option" where
  "active_location [] = None"
| "active_location (line # rest) =
     (if startswith (py_strip line) ''*'' then
        (let location = py_strip (py_lstrip_chars ''*'' (py_strip line))
         in Some (py_slice location (py_find location (CHR ''('') + 1)
                                     (py_find location (CHR '')''))))
      else active_location rest)"

definition get_current_location :: "world \<Rightarrow> string option prog" where
  "get_current_location w =
     try_except
       (and_then (check_output w scselect_cmd) (\<lambda>output.
          ret (active_location (splitlines output))))
       is_Exception (\<lambda>e. ret None)"

subsection \<open>Notifications (package module only)\<close>

definition paths_to_check :: "world \<Rightarrow> string list" where
  "paths_to_check w =
     [py_rstrip_chars ''/'' (home_dir w)
        @ ''/Library/Application Support/NotifyTool.app/Contents/MacOS/notifytool'',
      ''/usr/local/bin/notifytool'',
      path_join (script_dir w) ''notifytool'']"

definition get_notifytool_path :: "world \<Rightarrow> string option prog" where
  "get_notifytool_path w = (\<lambda>h. (Inr (find (executable_file w h) (paths_to_check w)), []))"

definition geteuid_is_root :: "world \<Rightarrow> bool prog" where
  "geteuid_is_root w = (\<lambda>h. (Inr (euid_is_root w h), []))"

definition console_user_cmd :: command where
  "console_user_cmd = Shell ''/usr/bin/stat -f '%Su' /dev/console''"

definition user_id_cmd :: "string \<Rightarrow> command" where
  "user_id_cmd console_user = Shell (''/usr/bin/id -u '' @ console_user)"

text \<open>
  The body both senders share: as root, the command is run in the console user's session
  when that user and its id can be found; \<open>done_without_id\<close> is what the sender does when
  the console user is known and its id is not, \<open>regular\<close> what it does otherwise.
\<close>

definition as_console_user ::
  "world \<Rightarrow> string list \<Rightarrow> bool prog \<Rightarrow> bool prog \<Rightarrow> bool prog" where
  "as_console_user w cmd done_without_id regular =
     and_then (geteuid_is_root w) (\<lambda>is_root.
       if is_root then
         and_then (run_command w console_user_cmd) (\<lambda>console_user_output.
           if console_user_output \<noteq> [] then
             and_then (run_command w (user_id_cmd (py_strip console_user_output)))
               (\<lambda>user_id_output.
                 if user_id_output \<noteq> [] then
                   and_then
                     (subprocess_run w
                        (Argv ([''/bin/launchctl'', ''asuser'', py_strip user_id_output] @ cmd))
                        False)
                     (\<lambda>_. ret True)
                 else done_without_id)
           else regular)
       else regular)"

definition send_notification_notifytool ::
  "world \<Rightarrow> 'p globals \<Rightarrow> string \<Rightarrow> string \<Rightarrow> string option \<Rightarrow> bool prog" where
  "send_notification_notifytool w g title message subtitle =
     and_then (get_notifytool_path w) (\<lambda>notifytool_path.
       case notifytool_path of
         None \<Rightarrow> ret False
       | Some path \<Rightarrow>
           if path = [] then ret False
           else
             try_except
               (let cmd = [path, ''--title'', title, ''--body'', message]
                        @ (case subtitle of None \<Rightarrow> []
                           | Some st \<Rightarrow> if st = [] then [] else [''--subtitle'', st]);
                    regular = and_then (subprocess_run w (Argv cmd) False)
                                (\<lambda>returncode. ret (returncode = 0))
                in as_console_user w cmd regular regular)
               is_Exception
               (\<lambda>e. and_then (log w (Some (LOG_FILE g)) (''NotifyTool failed: '' @ exn_str e))
                      (\<lambda>_. ret False)))"

definition applescript_escape :: "string \<Rightarrow> string" where
  "applescript_escape t =
     py_replace (py_replace t dquote (backslash @ dquote)) backslash (backslash @ backslash)"

definition notification_script :: "string \<Rightarrow> string \<Rightarrow> string" where
  "notification_script title message =
     ''display notification '' @ dquote @ applescript_escape message @ dquote
     @ '' with title '' @ dquote @ applescript_escape title @ dquote
     @ '' sound name '' @ dquote @ ''Glass'' @ dquote"

definition send_notification_osascript ::
  "world \<Rightarrow> 'p globals \<Rightarrow> string \<Rightarrow> string \<Rightarrow> bool prog" where
  "send_notification_osascript w g title message =
     try_except
       (let cmd = [''/usr/bin/osascript'', ''-e'', notification_script title message];
            regular = and_then (subprocess_run w (Argv cmd) False) (\<lambda>_. ret True)
        in as_console_user w cmd (ret True) regular)
       is_Exception
       (\<lambda>e. and_then
               (log w (Some (LOG_FILE g)) (''osascript notification failed: '' @ exn_str e))
               (\<lambda>_. ret False))"

definition send_notification ::
  "world \<Rightarrow> 'p globals \<Rightarrow> string \<Rightarrow> string \<Rightarrow> string option \<Rightarrow> unit prog" where
  "send_notification w g title message subtitle =
     and_then (send_notification_notifytool w g title message subtitle) (\<lambda>sent.
       if sent then ret ()
       else and_then (send_notification_osascript w g title message) (\<lambda>sent2.
              if \<not> sent2 then
                log w (Some (LOG_FILE g))
                  (''Could not send notification: '' @ title @ '' - '' @ message)
              else ret ()))"

subsection \<open>\<^verbatim>\<open>switch_location\<close>\<close>

definition switch_cmd :: "string \<Rightarrow> command" where
  "switch_cmd target = Argv [''/usr/sbin/networksetup'', ''-switchtolocation'', target]"

definition current_location_msg :: "string option \<Rightarrow> string \<Rightarrow> string" where
  "current_location_msg current target =
     ''Current location: '' @ fmt_optional current @ '', target: '' @ target"

definition switched_msg :: "string \<Rightarrow> string" where
  "switched_msg target = ''Switched network location '' @ arrow @ '' '' @ target"

definition failed_msg :: "string \<Rightarrow> exn \<Rightarrow> string" where
  "failed_msg target e =
     ''Failed to switch to location '' @ squote @ target @ squote @ '': '' @ exn_str e"

definition already_msg :: "string \<Rightarrow> string" where
  "already_msg target = ''Already on location: '' @ target"

text \<open>The package module: a successful switch is followed by a notification.\<close>

definition switch_location :: "world \<Rightarrow> 'p globals \<Rightarrow> string \<Rightarrow> unit prog" where
  "switch_location w g target =
     and_then (get_current_location w) (\<lambda>current.
       and_then (log w (Some (LOG_FILE g)) (current_location_msg current target)) (\<lambda>_.
         if current \<noteq> Some target then
           try_except
             (and_then (subprocess_run w (switch_cmd target) True) (\<lambda>_.
                and_then (log w (Some (LOG_FILE g)) (switched_msg target)) (\<lambda>_.
                  send_notification w g ''Network Location Switched''
                    (''Switched to '' @ squote @ target @ squote @ '' network location'')
                    None)))
             is_Exception
             (\<lambda>e. log w (Some (LOG_FILE g)) (failed_msg target e))
         else log w (Some (LOG_FILE g)) (already_msg target)))"

text \<open>The standalone script: no notification.\<close>

definition switch_location_script :: "world \<Rightarrow> 'p globals \<Rightarrow> string \<Rightarrow> unit prog" where
  "switch_location_script w g target =
     and_then (get_current_location w) (\<lambda>current.
       and_then (log w (Some (LOG_FILE g)) (current_location_msg current target)) (\<lambda>_.
         if current \<noteq> Some target then
           try_except
             (and_then (subprocess_run w (switch_cmd target) True) (\<lambda>_.
                log w (Some (LOG_FILE g)) (switched_msg target)))
             is_Exception
             (\<lambda>e. log w (Some (LOG_FILE g)) (failed_msg target e))
         else log w (Some (LOG_FILE g)) (already_msg target)))"

subsection \<open>\<^verbatim>\<open>network_changed\<close>\<close>

text \<open>
  The \<^verbatim>\<open>if wired / elif wifi and ssid / else\<close> of \<^verbatim>\<open>network_changed\<close> in the package
  module: the target it binds, and the line it logs.
\<close>

definition network_changed_target :: "'p globals \<Rightarrow> string option \<Rightarrow> bool \<Rightarrow> bool \<Rightarrow> 'p" where
  "network_changed_target g ssid wifi wired =
     (if wired then ETHERNET_LOCATION g
      else if wifi \<and> truthy ssid then
        (case ssid of
           None \<Rightarrow> DEFAULT_WIFI_LOCATION g
         | Some name \<Rightarrow>
             (case SSID_LOCATION_MAP g name of
                Some profile \<Rightarrow> profile
              | None \<Rightarrow> DEFAULT_WIFI_LOCATION g))
      else DEFAULT_WIFI_LOCATION g)"

definition network_changed_msg :: "string option \<Rightarrow> bool \<Rightarrow> bool \<Rightarrow> string \<Rightarrow> string" where
  "network_changed_msg ssid wifi wired target =
     (if wired then ''Detected Ethernet connection active. Target='' @ target
      else if wifi \<and> truthy ssid then
        ''Detected Wi-Fi SSID='' @ fmt_optional ssid @ '', target='' @ target
      else ''No active Wi-Fi or Ethernet detected. Using default location: '' @ target)"

definition network_changed :: "world \<Rightarrow> string globals \<Rightarrow> unit prog" where
  "network_changed w g =
     and_then (get_current_ssid w g) (\<lambda>ssid.
       and_then (wifi_active w g) (\<lambda>wifi.
         and_then (ethernet_active w g) (\<lambda>wired.
           (let target = network_changed_target g ssid wifi wired
            in and_then (log w (Some (LOG_FILE g)) (network_changed_msg ssid wifi wired target))
                 (\<lambda>_. switch_location w g target)))))"

text \<open>The same branch in the standalone script.\<close>

definition network_changed_target_script ::
  "'p globals \<Rightarrow> string option \<Rightarrow> bool \<Rightarrow> bool \<Rightarrow> 'p" where
  "network_changed_target_script g ssid wifi wired =
     (if wired then ETHERNET_LOCATION g
      else if wifi \<and> truthy ssid then
        (case ssid of
           None \<Rightarrow> DEFAULT_WIFI_LOCATION g
         | Some name \<Rightarrow>
             (case SSID_LOCATION_MAP g name of
                Some profile \<Rightarrow> profile
              | None \<Rightarrow> DEFAULT_WIFI_LOCATION g))
      else DEFAULT_WIFI_LOCATION g)"

definition network_changed_script :: "world \<Rightarrow> string globals \<Rightarrow> unit prog" where
  "network_changed_script w g =
     and_then (get_current_ssid w g) (\<lambda>ssid.
       and_then (wifi_active w g) (\<lambda>wifi.
         and_then (ethernet_active w g) (\<lambda>wired.
           (let target = network_changed_target_script g ssid wifi wired
            in and_then (log w (Some (LOG_FILE g)) (network_changed_msg ssid wifi wired target))
                 (\<lambda>_. switch_location_script w g target)))))"

subsection \<open>\<^verbatim>\<open>validate_config\<close> and the start of the module\<close>

text \<open>
  What \<^verbatim>\<open>json.load\<close> gives: a float is kept as its literal, an object as its members in
  order. A dictionary is the list of its items; \<open>map_of\<close> reads a key, \<open>AList.update\<close>
  assigns one (in place, or at the end when the key is new).
\<close>

datatype pyval =
    PNone
  | PBool bool
  | PInt int
  | PFloat string
  | PStr string
  | PList "pyval list"
  | PDict "(string \<times> pyval) list"

type_synonym pydict = "(string \<times> pyval) list"

definition defaults :: "string \<Rightarrow> pydict" where
  "defaults default_log_file =
     [(''ssid_location_map'', PDict []),
      (''default_wifi_location'', PStr ''Automatic''),
      (''ethernet_location'', PStr ''Wired''),
      (''log_file'', PStr default_log_file)]"

text \<open>
  How the f-string of the warning prints a default: the strings as they are, and the one
  default that is no string, the empty dictionary, as \<^verbatim>\<open>{}\<close>.
\<close>

definition fmt_default :: "pyval \<Rightarrow> string" where
  "fmt_default v = (case v of PStr s \<Rightarrow> s | _ \<Rightarrow> ''{}'')"

definition missing_key_msg :: "string \<Rightarrow> pyval \<Rightarrow> string" where
  "missing_key_msg key default_value =
     ''Warning: Missing config key '' @ squote @ key @ squote @ '', using default: ''
     @ fmt_default default_value"

text \<open>The loop over \<^verbatim>\<open>defaults.items()\<close>.\<close>

fun fill_defaults :: "world \<Rightarrow> string option \<Rightarrow> pydict \<Rightarrow> pydict \<Rightarrow> pydict prog" where
  "fill_defaults w log_file [] config = ret config"
| "fill_defaults w log_file ((key, default_value) # rest) config =
     (if map_of config key = None then
        and_then (log w log_file (missing_key_msg key default_value))
          (\<lambda>_. fill_defaults w log_file rest (AList.update key default_value config))
      else fill_defaults w log_file rest config)"

text \<open>\<^verbatim>\<open>type(v).__name__\<close>.\<close>

fun type_name :: "pyval \<Rightarrow> string" where
  "type_name PNone = ''NoneType''"
| "type_name (PBool b) = ''bool''"
| "type_name (PInt n) = ''int''"
| "type_name (PFloat f) = ''float''"
| "type_name (PStr s) = ''str''"
| "type_name (PList l) = ''list''"
| "type_name (PDict d) = ''dict''"

text \<open>\<^verbatim>\<open>os.makedirs(log_dir, mode=0o755, exist_ok=True)\<close>.\<close>

definition os_makedirs :: "world \<Rightarrow> string \<Rightarrow> unit prog" where
  "os_makedirs w dir =
     (\<lambda>h. case makedirs w h dir of
        None \<Rightarrow> (Inr (), [Makedirs dir])
      | Some err \<Rightarrow> (Inl (OSError err), [Makedirs dir]))"

text \<open>
  The block "Validate ssid_location_map is a dictionary" of \<^verbatim>\<open>validate_config\<close>.
  \<open>log_file\<close> is the binding of the global \<^verbatim>\<open>LOG_FILE\<close> at the time of the call.
\<close>

definition check_ssid_location_map :: "world \<Rightarrow> string option \<Rightarrow> pydict \<Rightarrow> pydict prog" where
  "check_ssid_location_map w log_file config =
     (case map_of config ''ssid_location_map'' of
        None \<Rightarrow> raise (KeyError ''ssid_location_map'')
      | Some (PDict d) \<Rightarrow> ret config
      | Some _ \<Rightarrow>
          and_then
            (log w log_file
               (''Error: '' @ squote @ ''ssid_location_map'' @ squote
                @ '' must be an object/dictionary''))
            (\<lambda>_. ret (AList.update ''ssid_location_map'' (PDict []) config)))"

text \<open>
  The block "Validate log file directory exists or can be created", up to the
  \<^verbatim>\<open>return config\<close>. \<^verbatim>\<open>os.path.dirname\<close> raises a \<^verbatim>\<open>TypeError\<close> on anything but a
  path; the handler of the \<^verbatim>\<open>try\<close> catches \<^verbatim>\<open>OSError\<close> only.
\<close>

definition check_log_directory ::
  "string \<Rightarrow> world \<Rightarrow> string option \<Rightarrow> pydict \<Rightarrow> pydict prog" where
  "check_log_directory fallback_name w log_file config =
     (case map_of config ''log_file'' of
        None \<Rightarrow> raise (KeyError ''log_file'')
      | Some (PStr log_file_value) \<Rightarrow>
          (let log_dir = dirname log_file_value
           in (\<lambda>h.
                if log_dir \<noteq> [] \<and> \<not> path_exists w h log_dir then
                  try_except
                    (and_then (os_makedirs w log_dir) (\<lambda>_.
                       and_then (log w log_file (''Created log directory: '' @ log_dir))
                         (\<lambda>_. ret config)))
                    is_OSError
                    (\<lambda>e.
                      and_then
                        (log w log_file
                           (''Warning: Cannot create log directory '' @ log_dir @ '': ''
                            @ exn_str e))
                        (\<lambda>_.
                          and_then
                            (log w log_file
                               (''Using fallback log file: ''
                                @ path_join (script_dir w) fallback_name))
                            (\<lambda>_. ret (AList.update ''log_file''
                                        (PStr (path_join (script_dir w) fallback_name))
                                        config))))
                    h
                else ret config h))
      | Some v \<Rightarrow>
          raise (TypeError (''expected str, bytes or os.PathLike object, not ''
                            @ type_name v)))"

text \<open>
  \<^verbatim>\<open>validate_config\<close>; the two files differ in the default log file and in the name of
  the fallback log file only.
\<close>

definition validate_config_with ::
  "string \<Rightarrow> string \<Rightarrow> world \<Rightarrow> string option \<Rightarrow> pydict \<Rightarrow> pydict prog" where
  "validate_config_with default_log_file fallback_name w log_file config0 =
     and_then (fill_defaults w log_file (defaults default_log_file) config0) (\<lambda>config1.
       and_then (check_ssid_location_map w log_file config1) (\<lambda>config.
         check_log_directory fallback_name w log_file config))"

definition validate_config :: "world \<Rightarrow> string option \<Rightarrow> pydict \<Rightarrow> pydict prog" where
  "validate_config =
     validate_config_with ''/usr/local/log/network_loc_switcher.log''
       ''network_loc_switcher.log''"

definition validate_config_script :: "world \<Rightarrow> string option \<Rightarrow> pydict \<Rightarrow> pydict prog" where
  "validate_config_script =
     validate_config_with ''/usr/local/log/network-location-switcher.log''
       ''network-location-switcher.log''"

text \<open>
  The module level of both files: \<^verbatim>\<open>CONFIG = validate_config(load_config())\<close> runs
  while \<^verbatim>\<open>LOG_FILE\<close> is still unbound, and the four globals are bound from its result
  afterwards. \<open>loaded\<close> is what \<^verbatim>\<open>load_config()\<close> returned.
\<close>

definition module_start :: "world \<Rightarrow> pydict \<Rightarrow> pydict prog" where
  "module_start w loaded = validate_config w None loaded"

definition module_start_script :: "world \<Rightarrow> pydict \<Rightarrow> pydict prog" where
  "module_start_script w loaded = validate_config_script w None loaded"

text \<open>The four keys, and the test that \<^verbatim>\<open>ssid_location_map\<close> holds a dictionary.\<close>

definition has_key :: "pydict \<Rightarrow> string \<Rightarrow> bool" where
  "has_key config key = (map_of config key \<noteq> None)"

definition ssid_map_is_dict :: "pydict \<Rightarrow> bool" where
  "ssid_map_is_dict config =
     (case map_of config ''ssid_location_map'' of Some (PDict d) \<Rightarrow> True | _ \<Rightarrow> False)"

definition fully_defaulted :: "pydict \<Rightarrow> bool" where
  "fully_defaulted config =
     (has_key config ''ssid_location_map'' \<and> has_key config ''default_wifi_location''
      \<and> has_key config ''ethernet_location'' \<and> has_key config ''log_file''
      \<and> ssid_map_is_dict config)"

subsection \<open>Vocabulary of the statements about \<^verbatim>\<open>switch_location\<close>\<close>

text \<open>
  What \<^verbatim>\<open>switch_location\<close> has done when it reaches its test: the profile listing and the
  line with the current profile \<open>current\<close> and the target.
\<close>

definition pre_switch_events ::
  "world \<Rightarrow> 'p globals \<Rightarrow> string option \<Rightarrow> string \<Rightarrow> event list \<Rightarrow> event list" where
  "pre_switch_events w g current target h =
     [Exec scselect_cmd]
     @ log_events w (LOG_FILE g) (current_location_msg current target) (h @ [Exec scselect_cmd])"

text \<open>
  The failure of the switch command when it is started after the events \<open>h\<close>: the exception
  of a process that cannot be run, the \<^verbatim>\<open>CalledProcessError\<close> of a non-zero exit status,
  or none.
\<close>

definition switch_failure :: "world \<Rightarrow> event list \<Rightarrow> string \<Rightarrow> exn option" where
  "switch_failure w h target =
     (case run_process w h (switch_cmd target) of
        Raised e \<Rightarrow> Some e
      | Exited rc out \<Rightarrow>
          if rc \<noteq> 0 then Some (CalledProcessError (cpe_text w (switch_cmd target) rc))
          else None)"

definition switched_title :: string where
  "switched_title = ''Network Location Switched''"

definition switched_body :: "string \<Rightarrow> string" where
  "switched_body target = ''Switched to '' @ squote @ target @ squote @ '' network location''"

text \<open>
  The argument lists of the two ways to deliver a notification (without a subtitle), and
  the first process \<^verbatim>\<open>send_notification\<close> starts after the events \<open>h\<close>: as root the
  query for the console user, otherwise NotifyTool where it is installed and
  \<^verbatim>\<open>osascript\<close> where it is not.
\<close>

definition notifytool_argv :: "string \<Rightarrow> string \<Rightarrow> string \<Rightarrow> string list" where
  "notifytool_argv path title message = [path, ''--title'', title, ''--body'', message]"

definition osascript_argv :: "string \<Rightarrow> string \<Rightarrow> string list" where
  "osascript_argv title message =
     [''/usr/bin/osascript'', ''-e'', notification_script title message]"

definition first_notification_process ::
  "world \<Rightarrow> event list \<Rightarrow> string \<Rightarrow> string \<Rightarrow> command" where
  "first_notification_process w h title message =
     (case find (executable_file w h) (paths_to_check w) of
        Some path \<Rightarrow>
          if euid_is_root w h then console_user_cmd
          else Argv (notifytool_argv path title message)
      | None \<Rightarrow>
          if euid_is_root w h then console_user_cmd
          else Argv (osascript_argv title message))"

text \<open>
  The processes of a notification when the daemon does not run as root: NotifyTool where
  it is installed, and \<^verbatim>\<open>osascript\<close> where it is not or where NotifyTool did not exit
  with status 0.
\<close>

definition user_notification_processes ::
  "world \<Rightarrow> event list \<Rightarrow> string \<Rightarrow> string \<Rightarrow> command list" where
  "user_notification_processes w h title message =
     (case find (executable_file w h) (paths_to_check w) of
        Some path \<Rightarrow>
          if fst (subprocess_run w (Argv (notifytool_argv path title message)) False h) = Inr 0
          then [Argv (notifytool_argv path title message)]
          else [Argv (notifytool_argv path title message),
                Argv (osascript_argv title message)]
      | None \<Rightarrow> [Argv (osascript_argv title message)])"

subsection \<open>Concrete configurations and worlds\<close>

text \<open>
  The configuration of the end-to-end scenarios, and worlds whose child processes answer
  from a table (a command that is not in the table exits with status 1 and prints
  nothing); every write to the log file succeeds in them.
\<close>

definition home_globals :: "string globals" where
  "home_globals =
     \<lparr>SSID_LOCATION_MAP = [''HomeNet'' \<mapsto> ''Home''],
      DEFAULT_WIFI_LOCATION = ''Automatic'',
      ETHERNET_LOCATION = ''Wired'',
      LOG_FILE = ''/tmp/nls.log''\<rparr>"

definition table_world :: "(command \<times> proc_result) list \<Rightarrow> world" where
  "table_world answers =
     \<lparr>run_process = (\<lambda>h c. case map_of answers c of Some r \<Rightarrow> r | None \<Rightarrow> Exited 1 []),
      strftime = (\<lambda>h. ''2025-01-01 12:00:00''),
      append_file = (\<lambda>h p. None),
      path_exists = (\<lambda>h p. True),
      makedirs = (\<lambda>h p. None),
      executable_file = (\<lambda>h p. False),
      euid_is_root = (\<lambda>h. False),
      cpe_text = (\<lambda>c rc. ''non-zero exit status''),
      script_dir = ''/opt/nls'',
      home_dir = ''/Users/me''\<rparr>"

definition lines_text :: "string list \<Rightarrow> string" where
  "lines_text ls = concat (map (\<lambda>l. l @ [CHR 0x0A]) ls)"

definition ports_listing :: string where
  "ports_listing =
     lines_text [''Hardware Port: Ethernet'', ''Device: en1'', [],
                 ''Hardware Port: Wi-Fi'', ''Device: en0'']"

text \<open>A profile listing whose active line is \<^verbatim>\<open> * 1F (Home)\<close>.\<close>

definition listing_home :: string where
  "listing_home = lines_text ['' * 1F (Home)'', ''   2A (Automatic)'']"

text \<open>A profile listing whose active line carries no name in parentheses.\<close>

definition listing_no_name :: string where
  "listing_no_name = lines_text ['' * Automatic'']"

definition world_on_home :: world where
  "world_on_home = table_world [(scselect_cmd, Exited 0 listing_home)]"

definition world_no_name :: world where
  "world_no_name = table_world [(scselect_cmd, Exited 0 listing_no_name)]"

text \<open>
  Wi-Fi is \<^verbatim>\<open>en0\<close>; the wired port \<^verbatim>\<open>en1\<close> has a link and no IPv4 address, and so has
  \<^verbatim>\<open>en0\<close>.
\<close>

definition world_link_only :: world where
  "world_link_only =
     table_world
       [(list_ports_cmd, Exited 0 ports_listing),
        (ifconfig_cmd ''en1'', Exited 0 (lines_text [''en1: flags=8863'', ''status: active''])),
        (wifi_status_cmd ''en0'', Exited 0 (lines_text [''status: active'']))]"

text \<open>The same, with an IPv4 address on \<^verbatim>\<open>en1\<close>.\<close>

definition world_wired :: world where
  "world_wired =
     table_world
       [(list_ports_cmd, Exited 0 ports_listing),
        (ifconfig_cmd ''en1'',
           Exited 0 (lines_text [''en1: flags=8863'', ''inet 10.0.0.2 netmask 0xffffff00'',
                                 ''status: active''])),
        (wifi_status_cmd ''en0'', Exited 0 (lines_text [''status: active'']))]"



text \<open>The active profile is Automatic, and the switch command exits with status 5.\<close>

definition world_switch_fails :: world where
  "world_switch_fails =
     table_world
       [(scselect_cmd, Exited 0 (lines_text ['' * 2A (Automatic)'', ''   1F (Home)''])),
        (switch_cmd ''Home'', Exited 5 [])]"


section \<open>Properties\<close>

subsection \<open>Evaluating the string methods\<close>

lemmas string_eval =
  splitlines_def codepoints_def is_continuation_def py_strip_def py_isspace_def whitespace_def
  is_linebreak_def linebreaks_def startswith_def py_lstrip_chars_def py_slice_def
  slice_index_def py_find_def py_replace_def Let_def

subsection \<open>Effects\<close>

lemma execs_append: "execs (xs @ ys) = execs xs @ execs ys"
  by (induction xs rule: execs.induct) auto

lemma logged_append: "logged (xs @ ys) = logged xs @ logged ys"
  by (induction xs rule: logged.induct) auto

lemma execs_log_events: "execs (log_events w p m h) = []"
  by (simp add: log_events_def split: option.splits)

lemma logged_log_events: "logged (log_events w p m h) = [m]"
  by (simp add: log_events_def split: option.splits)

lemma log_bound: "log w (Some p) m h = (Inr (), log_events w p m h)"
  by (simp add: log_def)

subsection \<open>The mapping from the network state to the target\<close>

text \<open>
  C1. The target \<^verbatim>\<open>network_changed\<close> binds is the wired profile when the wired link is
  active; otherwise, with Wi-Fi active and a non-empty SSID, the profile the SSID map gives
  for the SSID, or the default Wi-Fi profile when the SSID is no key of the map; otherwise
  (Wi-Fi not active, or no SSID, or an empty one) the default Wi-Fi profile.
\<close>

theorem network_changed_target_resolution:
  "(wired \<longrightarrow> network_changed_target g ssid wifi wired = ETHERNET_LOCATION g)
   \<and> (\<not> wired \<and> wifi \<and> ssid = Some name \<and> name \<noteq> [] \<and> SSID_LOCATION_MAP g name = Some profile
        \<longrightarrow> network_changed_target g ssid wifi wired = profile)
   \<and> (\<not> wired \<and> wifi \<and> ssid = Some name \<and> name \<noteq> [] \<and> SSID_LOCATION_MAP g name = None
        \<longrightarrow> network_changed_target g ssid wifi wired = DEFAULT_WIFI_LOCATION g)
   \<and> (\<not> wired \<and> (\<not> wifi \<or> ssid = None \<or> ssid = Some [])
        \<longrightarrow> network_changed_target g ssid wifi wired = DEFAULT_WIFI_LOCATION g)"
  by (auto simp: network_changed_target_def truthy_def)

theorem network_changed_target_resolution_witness:
  "network_changed_target home_globals (Some ''HomeNet'') True True = ''Wired''
   \<and> network_changed_target home_globals (Some ''HomeNet'') True False = ''Home''
   \<and> network_changed_target home_globals (Some ''OfficeNet'') True False = ''Automatic''
   \<and> network_changed_target home_globals None True False = ''Automatic''"
  using
    network_changed_target_resolution
      [of True home_globals "Some ''HomeNet''" True "''HomeNet''" "''Home''"]
    network_changed_target_resolution
      [of False home_globals "Some ''HomeNet''" True "''HomeNet''" "''Home''"]
    network_changed_target_resolution
      [of False home_globals "Some ''OfficeNet''" True "''OfficeNet''" "''Home''"]
    network_changed_target_resolution
      [of False home_globals None True "''HomeNet''" "''Home''"]
  by (simp add: home_globals_def)

text \<open>
  C2. With the wired link active the target is the wired profile, whatever the Wi-Fi flag
  and the SSID are.
\<close>

theorem wired_takes_precedence:
  "wired \<Longrightarrow> network_changed_target g ssid wifi wired = ETHERNET_LOCATION g"
  by (simp add: network_changed_target_def)

theorem wired_takes_precedence_witness:
  "network_changed_target home_globals (Some ''HomeNet'') True True = ''Wired''
   \<and> network_changed_target home_globals None False True = ''Wired''"
  using wired_takes_precedence [of True home_globals "Some ''HomeNet''" True]
    wired_takes_precedence [of True home_globals None False]
  by (simp add: home_globals_def)

subsection \<open>The switch executor\<close>

lemma get_current_location_events: "snd (get_current_location w h) = [Exec scselect_cmd]"
  by (simp add: get_current_location_def try_except_def and_then_def check_output_def ret_def
      is_Exception_def split: proc_result.splits)

lemma get_current_location_returns: "\<exists>c. fst (get_current_location w h) = Inr c"
  by (simp add: get_current_location_def try_except_def and_then_def check_output_def ret_def
      is_Exception_def split: proc_result.splits)

lemma get_current_location_pair:
  "fst (get_current_location w h) = Inr c \<Longrightarrow>
   get_current_location w h = (Inr c, [Exec scselect_cmd])"
  using get_current_location_events [of w h] by (cases "get_current_location w h") simp

lemma switch_location_same:
  assumes "fst (get_current_location w h) = Inr (Some t)"
  shows "switch_location w g t h =
    (Inr (), [Exec scselect_cmd]
       @ log_events w (LOG_FILE g) (current_location_msg (Some t) t) (h @ [Exec scselect_cmd])
       @ log_events w (LOG_FILE g) (already_msg t)
           (h @ [Exec scselect_cmd]
              @ log_events w (LOG_FILE g) (current_location_msg (Some t) t)
                  (h @ [Exec scselect_cmd])))"
  using get_current_location_pair [OF assms]
  by (simp add: switch_location_def and_then_def log_bound)

lemma triggers_no_switch:
  assumes "\<forall>h. fst (get_current_location w h) = Inr (Some t)"
  shows "fst (triggers n (switch_location w g t) h) = Inr ()
         \<and> switch_cmd t \<notin> set (execs (snd (triggers n (switch_location w g t) h)))"
proof (induction n arbitrary: h)
  case 0
  show ?case by (simp add: ret_def)
next
  case (Suc n)
  have cur: "fst (get_current_location w h) = Inr (Some t)" using assms by blast
  obtain ev where first: "switch_location w g t h = (Inr (), ev)"
    and ev: "execs ev = [scselect_cmd]"
    using switch_location_same [OF cur, of g] by (simp add: execs_append execs_log_events)
  obtain r ev' where rest: "triggers n (switch_location w g t) (h @ ev) = (r, ev')"
    by (cases "triggers n (switch_location w g t) (h @ ev)")
  from Suc.IH [of "h @ ev"] rest
  have "r = Inr ()" and "switch_cmd t \<notin> set (execs ev')" by simp_all
  then show ?case
    by (simp add: and_then_def first rest execs_append ev scselect_cmd_def switch_cmd_def)
qed

text \<open>
  C3. When the profile the reader reports is the target itself, \<^verbatim>\<open>switch_location\<close>
  returns without starting the switch command: the one process it runs is the profile
  listing, and what it logs is the current profile and "Already on location", not a switch.
  So as long as the reader keeps reporting the target, no number of triggers starts the
  switch command.
\<close>

theorem switch_location_idempotent:
  "(fst (get_current_location w h) = Inr (Some t) \<longrightarrow>
      fst (switch_location w g t h) = Inr ()
      \<and> execs (snd (switch_location w g t h)) = [scselect_cmd]
      \<and> switch_cmd t \<notin> set (execs (snd (switch_location w g t h)))
      \<and> logged (snd (switch_location w g t h))
          = [current_location_msg (Some t) t, already_msg t])
   \<and> ((\<forall>h'. fst (get_current_location w h') = Inr (Some t)) \<longrightarrow>
      fst (triggers n (switch_location w g t) h) = Inr ()
      \<and> switch_cmd t \<notin> set (execs (snd (triggers n (switch_location w g t) h))))"
proof (intro conjI impI)
  assume cur: "fst (get_current_location w h) = Inr (Some t)"
  note eq = switch_location_same [OF cur, of g]
  show "fst (switch_location w g t h) = Inr ()" by (simp add: eq)
  show "execs (snd (switch_location w g t h)) = [scselect_cmd]"
    by (simp add: eq execs_append execs_log_events)
  then show "switch_cmd t \<notin> set (execs (snd (switch_location w g t h)))"
    by (simp add: scselect_cmd_def switch_cmd_def)
  show "logged (snd (switch_location w g t h))
          = [current_location_msg (Some t) t, already_msg t]"
    by (simp add: eq logged_append logged_log_events)
next
  assume every: "\<forall>h'. fst (get_current_location w h') = Inr (Some t)"
  show "fst (triggers n (switch_location w g t) h) = Inr ()"
    using triggers_no_switch [OF every] by blast
  show "switch_cmd t \<notin> set (execs (snd (triggers n (switch_location w g t) h)))"
    using triggers_no_switch [OF every] by blast
qed

lemma world_on_home_current:
  "fst (get_current_location world_on_home h) = Inr (Some ''Home'')"
  by (simp add: get_current_location_def try_except_def and_then_def check_output_def ret_def
      is_Exception_def world_on_home_def table_world_def listing_home_def lines_text_def
      string_eval)

theorem switch_location_idempotent_witness:
  "fst (get_current_location world_on_home []) = Inr (Some ''Home'')
   \<and> fst (switch_location world_on_home home_globals ''Home'' []) = Inr ()
   \<and> execs (snd (switch_location world_on_home home_globals ''Home'' [])) = [scselect_cmd]
   \<and> logged (snd (switch_location world_on_home home_globals ''Home'' []))
       = [''Current location: Home, target: Home'', ''Already on location: Home'']
   \<and> switch_cmd ''Home''
       \<notin> set (execs (snd (triggers 3 (switch_location world_on_home home_globals ''Home'') [])))"
  using switch_location_idempotent [of world_on_home "[]" "''Home''" home_globals 3]
    world_on_home_current
  by (simp add: current_location_msg_def already_msg_def fmt_optional_def)

lemma try_except_all_returns:
  assumes "\<And>e h'. \<exists>y. fst (handler e h') = Inr y"
  shows "\<exists>y. fst (try_except m is_Exception handler h) = Inr y"
proof (cases "m h")
  case (Pair r ev)
  show ?thesis
  proof (cases r)
    case (Inl e)
    obtain y ev' where "handler e (h @ ev) = (Inr y, ev')"
      using assms [of e "h @ ev"] by (cases "handler e (h @ ev)") auto
    with Pair Inl show ?thesis
      by (simp add: try_except_def is_Exception_def)
  next
    case (Inr x)
    with Pair show ?thesis by (simp add: try_except_def)
  qed
qed

lemma and_then_pure: "m h = (Inr x, []) \<Longrightarrow> and_then m f h = f x h"
  by (simp add: and_then_def split: prod.splits)

lemma log_then_ret_returns: "\<exists>y. fst (and_then (log w (Some p) m) (\<lambda>_. ret v) h) = Inr y"
  by (simp add: and_then_def log_bound ret_def)

lemma send_notification_notifytool_returns:
  "\<exists>b. fst (send_notification_notifytool w g title message subtitle h) = Inr b"
proof -
  have path: "get_notifytool_path w h = (Inr (find (executable_file w h) (paths_to_check w)), [])"
    by (simp add: get_notifytool_path_def)
  note ap = and_then_pure [where m = "get_notifytool_path w" and h = h, OF path]
  show ?thesis
  proof (cases "find (executable_file w h) (paths_to_check w)")
    case None
    then show ?thesis
      by (auto simp: send_notification_notifytool_def ap ret_def)
  next
    case (Some p)
    show ?thesis
    proof (cases "p = []")
      case True
      with Some show ?thesis
        by (auto simp: send_notification_notifytool_def ap ret_def)
    next
      case False
      with Some show ?thesis
        unfolding send_notification_notifytool_def ap
        by simp (rule try_except_all_returns, rule log_then_ret_returns)
    qed
  qed
qed

lemma send_notification_osascript_returns:
  "\<exists>b. fst (send_notification_osascript w g title message h) = Inr b"
  unfolding send_notification_osascript_def
  by (rule try_except_all_returns) (rule log_then_ret_returns)

lemma send_notification_returns:
  "fst (send_notification w g title message subtitle h) = Inr ()"
proof -
  obtain b ev where a: "send_notification_notifytool w g title message subtitle h = (Inr b, ev)"
    using send_notification_notifytool_returns [of w g title message subtitle h]
    by (cases "send_notification_notifytool w g title message subtitle h") auto
  obtain b2 ev2 where
    b: "send_notification_osascript w g title message (h @ ev) = (Inr b2, ev2)"
    using send_notification_osascript_returns [of w g title message "h @ ev"]
    by (cases "send_notification_osascript w g title message (h @ ev)") auto
  show ?thesis
    by (simp add: send_notification_def and_then_def a b ret_def log_bound)
qed

lemma subprocess_run_check:
  "subprocess_run w (switch_cmd t) True h =
     (case switch_failure w h t of Some e \<Rightarrow> Inl e
      | None \<Rightarrow> Inr 0, [Exec (switch_cmd t)])"
  by (simp add: subprocess_run_def switch_failure_def split: proc_result.splits)

lemma switch_location_differs:
  assumes cur: "fst (get_current_location w h) = Inr c" and ne: "c \<noteq> Some t"
  shows "switch_location w g t h =
    (Inr (),
     pre_switch_events w g c t h @ [Exec (switch_cmd t)]
     @ (case switch_failure w (h @ pre_switch_events w g c t h) t of
          Some e \<Rightarrow>
            log_events w (LOG_FILE g) (failed_msg t e)
              (h @ pre_switch_events w g c t h @ [Exec (switch_cmd t)])
        | None \<Rightarrow>
            log_events w (LOG_FILE g) (switched_msg t)
              (h @ pre_switch_events w g c t h @ [Exec (switch_cmd t)])
            @ snd (send_notification w g switched_title (switched_body t) None
                     (h @ pre_switch_events w g c t h @ [Exec (switch_cmd t)]
                        @ log_events w (LOG_FILE g) (switched_msg t)
                            (h @ pre_switch_events w g c t h @ [Exec (switch_cmd t)])))))"
proof -
  note gcl = get_current_location_pair [OF cur]
  show ?thesis
  proof (cases "switch_failure w (h @ pre_switch_events w g c t h) t")
    case None
    obtain ev where sent: "send_notification w g switched_title (switched_body t) None
        (h @ pre_switch_events w g c t h @ [Exec (switch_cmd t)]
           @ log_events w (LOG_FILE g) (switched_msg t)
               (h @ pre_switch_events w g c t h @ [Exec (switch_cmd t)])) = (Inr (), ev)"
      using send_notification_returns
      by (metis (full_types) prod.collapse)
    from None ne sent show ?thesis
      by (simp add: switch_location_def and_then_def gcl log_bound try_except_def
          subprocess_run_check pre_switch_events_def switched_title_def switched_body_def)
  next
    case (Some e)
    then show ?thesis
      using ne
      by (simp add: switch_location_def and_then_def gcl log_bound try_except_def
          subprocess_run_check pre_switch_events_def is_Exception_def)
  qed
qed

lemma py_in_here: "py_in sub (sub @ b)"
proof (cases "sub @ b")
  case Nil
  then show ?thesis by simp
next
  case (Cons x xs)
  have "startswith (sub @ b) sub" by (simp add: startswith_def)
  with Cons show ?thesis by simp
qed

lemma py_in_append: "py_in sub (a @ sub @ b)"
  by (induction a) (simp_all add: py_in_here)

lemma switch_location_returns: "fst (switch_location w g t h) = Inr ()"
proof -
  obtain c where cur: "fst (get_current_location w h) = Inr c"
    using get_current_location_returns by blast
  show ?thesis
  proof (cases "c = Some t")
    case True
    with cur show ?thesis by (simp add: switch_location_same)
  next
    case False
    with cur show ?thesis by (simp add: switch_location_differs)
  qed
qed

lemma triggers_switch_location_returns: "fst (triggers n (switch_location w g t) h) = Inr ()"
proof (induction n arbitrary: h)
  case 0
  show ?case by (simp add: ret_def)
next
  case (Suc n)
  obtain ev where first: "switch_location w g t h = (Inr (), ev)"
    using switch_location_returns [of w g t h] by (cases "switch_location w g t h") simp
  from Suc.IH [of "h @ ev"] show ?case
    by (auto simp: and_then_def first split: prod.splits)
qed

lemma switch_attempted:
  assumes "fst (get_current_location w h) = Inr c" and "c \<noteq> Some t"
  shows "switch_cmd t \<in> set (execs (snd (switch_location w g t h)))"
  by (simp add: switch_location_differs [OF assms] execs_append)

lemma current_automatic:
  "fst (get_current_location
          (table_world ((scselect_cmd,
             Exited 0 (lines_text ['' * 2A (Automatic)'', ''   1F (Home)''])) # rest)) h)
     = Inr (Some ''Automatic'')"
  by (simp add: get_current_location_def try_except_def and_then_def check_output_def ret_def
      is_Exception_def table_world_def lines_text_def
      string_eval)

lemma world_switch_fails_failure:
  "switch_failure world_switch_fails h ''Home'' = Some (CalledProcessError ''non-zero exit status'')"
  by (simp add: switch_failure_def world_switch_fails_def table_world_def switch_cmd_def
      scselect_cmd_def)

text \<open>
  C5. When the profile the reader reports is not the target and the switch command fails,
  by a non-zero exit status or by an exception, \<^verbatim>\<open>switch_location\<close> returns normally; it
  has started the switch command once and no other process after it; and it has logged one
  line for the failure, which holds the target and the text of the error. The callback
  never raises, however many triggers follow, and any later trigger that finds the current
  profile different from the target starts the switch command again.
\<close>

theorem switch_failure_logged_not_raised:
  assumes "fst (get_current_location w h) = Inr c" and "c \<noteq> Some t"
    and "switch_failure w (h @ pre_switch_events w g c t h) t = Some e"
  shows "fst (switch_location w g t h) = Inr ()
    \<and> execs (snd (switch_location w g t h)) = [scselect_cmd, switch_cmd t]
    \<and> logged (snd (switch_location w g t h)) = [current_location_msg c t, failed_msg t e]
    \<and> py_in t (failed_msg t e) \<and> py_in (exn_str e) (failed_msg t e)
    \<and> fst (triggers n (switch_location w g t) h') = Inr ()
    \<and> (fst (get_current_location w h') = Inr c' \<and> c' \<noteq> Some t
        \<longrightarrow> switch_cmd t \<in> set (execs (snd (switch_location w g t h'))))"
proof -
  note eq = switch_location_differs [OF assms(1,2), of g]
  have "py_in t (''Failed to switch to location '' @ squote @ t @ squote @ '': '' @ exn_str e)"
    using py_in_append [of t "''Failed to switch to location '' @ squote"
        "squote @ '': '' @ exn_str e"] by simp
  moreover have
    "py_in (exn_str e) (''Failed to switch to location '' @ squote @ t @ squote @ '': '' @ exn_str e)"
    using py_in_append [of "exn_str e" "''Failed to switch to location '' @ squote @ t @ squote @ '': ''" "[]"]
    by simp
  ultimately show ?thesis
    using assms(3) switch_attempted [of w h' c' t g]
    by (simp add: eq execs_append logged_append execs_log_events logged_log_events
        pre_switch_events_def failed_msg_def triggers_switch_location_returns)
qed

theorem switch_failure_logged_not_raised_witness:
  "fst (get_current_location world_switch_fails []) = Inr (Some ''Automatic'')
   \<and> fst (switch_location world_switch_fails home_globals ''Home'' []) = Inr ()
   \<and> execs (snd (switch_location world_switch_fails home_globals ''Home'' []))
       = [scselect_cmd, switch_cmd ''Home'']
   \<and> logged (snd (switch_location world_switch_fails home_globals ''Home'' []))
       = [''Current location: Automatic, target: Home'',
          failed_msg ''Home'' (CalledProcessError ''non-zero exit status'')]"
  using switch_failure_logged_not_raised
      [of world_switch_fails "[]" "Some ''Automatic''" "''Home''" home_globals
          "CalledProcessError ''non-zero exit status''" 0 "[]" None]
    current_automatic [of _ "[]"] world_switch_fails_failure
  by (simp add: world_switch_fails_def current_location_msg_def fmt_optional_def)




subsection \<open>The active-profile reader\<close>

lemma get_current_location_failed:
  assumes "run_process w h scselect_cmd = Raised e
           \<or> (\<exists>rc out. rc \<noteq> 0 \<and> run_process w h scselect_cmd = Exited rc out)"
  shows "fst (get_current_location w h) = Inr None"
  using assms
  by (auto simp: get_current_location_def try_except_def and_then_def check_output_def ret_def
      is_Exception_def)

lemma active_location_unstarred:
  "\<forall>line \<in> set ls. \<not> startswith (py_strip line) ''*'' \<Longrightarrow> active_location ls = None"
  by (induction ls) simp_all

lemma get_current_location_unstarred:
  assumes "run_process w h scselect_cmd = Exited 0 out"
    and "\<forall>line \<in> set (splitlines out). \<not> startswith (py_strip line) ''*''"
  shows "fst (get_current_location w h) = Inr None"
  using assms
  by (simp add: get_current_location_def try_except_def and_then_def check_output_def ret_def
      active_location_unstarred)

lemma switch_attempted_when_unknown:
  "fst (get_current_location w h) = Inr None \<Longrightarrow>
   switch_cmd t \<in> set (execs (snd (switch_location w g t h)))"
  using switch_attempted [of w h None t g] by simp

text \<open>
  C4. The reader never raises (\<open>get_current_location_returns\<close>); it returns \<^verbatim>\<open>None\<close> when
  the listing command fails and when no line is marked with a star; and with \<^verbatim>\<open>None\<close> as
  the current profile the switch command is started for every target. A listing whose
  marked line does not have the form \<^verbatim>\<open>* id (name)\<close> is not answered with \<^verbatim>\<open>None\<close>,
  though: both \<^verbatim>\<open>find\<close> calls give -1, and the slice from 0 to -1 is returned. For the
  marked line \<^verbatim>\<open> * Automatic\<close> the reader returns the string \<^verbatim>\<open>Automati\<close>.
\<close>

theorem unparsed_active_line_not_none:
  "fst (get_current_location world_no_name []) = Inr (Some ''Automati'')"
  by (simp add: get_current_location_def try_except_def and_then_def check_output_def ret_def
      is_Exception_def world_no_name_def table_world_def listing_no_name_def lines_text_def
      string_eval)

subsection \<open>The two copies of the daemon\<close>

lemma switch_location_script_same:
  assumes "fst (get_current_location w h) = Inr (Some t)"
  shows "switch_location_script w g t h = switch_location w g t h"
  using get_current_location_pair [OF assms]
  by (simp add: switch_location_def switch_location_script_def and_then_def log_bound)

lemma switch_location_script_differs:
  assumes cur: "fst (get_current_location w h) = Inr c" and ne: "c \<noteq> Some t"
  shows "switch_location_script w g t h =
    (Inr (),
     pre_switch_events w g c t h @ [Exec (switch_cmd t)]
     @ (case switch_failure w (h @ pre_switch_events w g c t h) t of
          Some e \<Rightarrow>
            log_events w (LOG_FILE g) (failed_msg t e)
              (h @ pre_switch_events w g c t h @ [Exec (switch_cmd t)])
        | None \<Rightarrow>
            log_events w (LOG_FILE g) (switched_msg t)
              (h @ pre_switch_events w g c t h @ [Exec (switch_cmd t)])))"
proof -
  note gcl = get_current_location_pair [OF cur]
  show ?thesis
  proof (cases "switch_failure w (h @ pre_switch_events w g c t h) t")
    case None
    with ne show ?thesis
      by (simp add: switch_location_script_def and_then_def gcl log_bound try_except_def
          subprocess_run_check pre_switch_events_def)
  next
    case (Some e)
    with ne show ?thesis
      by (simp add: switch_location_script_def and_then_def gcl log_bound try_except_def
          subprocess_run_check pre_switch_events_def is_Exception_def)
  qed
qed

lemma switch_location_extends_script:
  "\<exists>notification. switch_location w g t h
     = (fst (switch_location_script w g t h), snd (switch_location_script w g t h) @ notification)"
proof -
  obtain c where cur: "fst (get_current_location w h) = Inr c"
    using get_current_location_returns by blast
  show ?thesis
  proof (cases "c = Some t")
    case True
    with cur have "switch_location_script w g t h = switch_location w g t h"
      by (simp add: switch_location_script_same)
    then have "switch_location w g t h
      = (fst (switch_location_script w g t h), snd (switch_location_script w g t h) @ [])"
      by simp
    then show ?thesis by blast
  next
    case False
    show ?thesis
      by (cases "switch_failure w (h @ pre_switch_events w g c t h) t")
        (simp_all add: switch_location_script_differs [OF cur False]
          switch_location_differs [OF cur False])
  qed
qed

lemma and_then_cong_tail:
  assumes "\<And>x h'. \<exists>n. f x h' = (fst (f' x h'), snd (f' x h') @ n)"
  shows "\<exists>n. and_then m f h = (fst (and_then m f' h), snd (and_then m f' h) @ n)"
proof (cases "m h")
  case (Pair r ev)
  show ?thesis
  proof (cases r)
    case (Inl e)
    with Pair show ?thesis by (simp add: and_then_def)
  next
    case (Inr x)
    obtain n where "f x (h @ ev) = (fst (f' x (h @ ev)), snd (f' x (h @ ev)) @ n)"
      using assms by blast
    with Pair Inr show ?thesis
      by (simp add: and_then_def split: prod.splits)
  qed
qed

lemma network_changed_target_script_eq:
  "network_changed_target_script g ssid wifi wired = network_changed_target g ssid wifi wired"
  by (simp add: network_changed_target_script_def network_changed_target_def)

text \<open>
  C9. The script and the package module bind the same target for every SSID, Wi-Fi flag,
  wired flag and configuration. A whole run of \<^verbatim>\<open>network_changed\<close> in the same world
  differs only at the end: both return or raise the same, and the events of the package
  module are those of the script followed by the events of the notification (none when
  nothing was switched).
\<close>

theorem script_and_package_agree:
  "network_changed_target_script g ssid wifi wired = network_changed_target g ssid wifi wired
   \<and> fst (network_changed w g' h) = fst (network_changed_script w g' h)
   \<and> (\<exists>notification.
        snd (network_changed w g' h) = snd (network_changed_script w g' h) @ notification)"
proof -
  have "\<exists>n. network_changed w g' h
      = (fst (network_changed_script w g' h), snd (network_changed_script w g' h) @ n)"
    unfolding network_changed_def network_changed_script_def Let_def
      network_changed_target_script_eq
    by (intro and_then_cong_tail switch_location_extends_script)
  then obtain n where "network_changed w g' h
      = (fst (network_changed_script w g' h), snd (network_changed_script w g' h) @ n)" ..
  then have "fst (network_changed w g' h) = fst (network_changed_script w g' h)"
    and "snd (network_changed w g' h) = snd (network_changed_script w g' h) @ n"
    by simp_all
  then show ?thesis
    by (simp add: network_changed_target_script_def network_changed_target_def)
qed

subsection \<open>The probes\<close>

lemma run_command_events: "snd (run_command w c h) = [Exec c]"
  by (simp add: run_command_def try_except_def and_then_def check_output_def ret_def
      split: proc_result.splits)

lemma run_command_exited:
  "run_process w h c = Exited rc out \<Longrightarrow>
   run_command w c h = (Inr (if rc = 0 then py_strip out else []), [Exec c])"
  by (simp add: run_command_def try_except_def and_then_def check_output_def ret_def)

lemma run_command_raised:
  "run_process w h c = Raised e \<Longrightarrow>
   run_command w c h = (if is_CalledProcessError e then Inr [] else Inl e, [Exec c])"
  by (simp add: run_command_def try_except_def and_then_def check_output_def ret_def)

lemma run_command_pair:
  "fst (run_command w c h) = r \<Longrightarrow> run_command w c h = (r, [Exec c])"
  using run_command_events [of w c h] by (cases "run_command w c h") simp

lemma get_wifi_interface_cases:
  "get_wifi_interface w g h =
     (case fst (run_command w list_ports_cmd h) of
        Inl e \<Rightarrow> (Inl e, [Exec list_ports_cmd])
      | Inr ports_output \<Rightarrow>
          if ports_output = [] then
            (Inr None, Exec list_ports_cmd
               # log_events w (LOG_FILE g) ''Could not get hardware ports list.''
                   (h @ [Exec list_ports_cmd]))
          else if truthy (find_wifi_device (splitlines ports_output)) then
            (Inr (find_wifi_device (splitlines ports_output)), [Exec list_ports_cmd])
          else
            (Inr None, Exec list_ports_cmd
               # log_events w (LOG_FILE g) ''Could not detect Wi-Fi interface.''
                   (h @ [Exec list_ports_cmd])))"
proof (cases "fst (run_command w list_ports_cmd h)")
  case (Inl e)
  then show ?thesis
    by (simp add: get_wifi_interface_def and_then_def run_command_pair [OF Inl])
next
  case (Inr out)
  then show ?thesis
    by (simp add: get_wifi_interface_def and_then_def run_command_pair [OF Inr] log_bound
        ret_def Let_def)
qed

lemma get_wifi_interface_nonempty:
  "fst (get_wifi_interface w g h) = Inr (Some i) \<Longrightarrow> i \<noteq> []"
  by (auto simp: get_wifi_interface_cases truthy_def split: sum.splits if_splits)

lemma wifi_active_cases:
  "wifi_active w g h =
     (case get_wifi_interface w g h of
        (Inl e, ev) \<Rightarrow> (Inl e, ev)
      | (Inr None, ev) \<Rightarrow> (Inr False, ev)
      | (Inr (Some i), ev) \<Rightarrow>
          (case fst (run_command w (wifi_status_cmd i) (h @ ev)) of
             Inl e \<Rightarrow> (Inl e, ev @ [Exec (wifi_status_cmd i)])
           | Inr output \<Rightarrow> (Inr (py_in ''status: active'' output), ev @ [Exec (wifi_status_cmd i)])))"
proof (cases "get_wifi_interface w g h")
  case (Pair r ev)
  show ?thesis
  proof (cases r)
    case (Inl e)
    with Pair show ?thesis by (simp add: wifi_active_def and_then_def)
  next
    case (Inr iface)
    show ?thesis
    proof (cases iface)
      case None
      with Pair Inr show ?thesis by (simp add: wifi_active_def and_then_def ret_def)
    next
      case (Some i)
      with Pair Inr have "i \<noteq> []" using get_wifi_interface_nonempty [of w g h i] by simp
      note Inr
      show ?thesis
      proof (cases "fst (run_command w (wifi_status_cmd i) (h @ ev))")
        case (Inl e)
        with Pair \<open>r = Inr iface\<close> Some \<open>i \<noteq> []\<close> show ?thesis
          by (simp add: wifi_active_def and_then_def ret_def run_command_pair [OF Inl])
      next
        case (Inr outp)
        with Pair \<open>r = Inr iface\<close> Some \<open>i \<noteq> []\<close> show ?thesis
          by (simp add: wifi_active_def and_then_def ret_def run_command_pair [OF Inr])
      qed
    qed
  qed
qed


lemma ethernet_active_cases:
  "ethernet_active w g h =
     (case get_wifi_interface w g h of
        (Inl e, ev) \<Rightarrow> (Inl e, ev)
      | (Inr wifi_iface, ev) \<Rightarrow>
          (case fst (run_command w list_ports_cmd (h @ ev)) of
             Inl e \<Rightarrow> (Inl e, ev @ [Exec list_ports_cmd])
           | Inr ports_output \<Rightarrow>
               if ports_output = [] then (Inr False, ev @ [Exec list_ports_cmd])
               else
                 (fst (check_ports w g (ethernet_ports wifi_iface (splitlines ports_output))
                         (h @ ev @ [Exec list_ports_cmd])),
                  ev @ [Exec list_ports_cmd]
                  @ snd (check_ports w g (ethernet_ports wifi_iface (splitlines ports_output))
                           (h @ ev @ [Exec list_ports_cmd])))))"
proof (cases "get_wifi_interface w g h")
  case (Pair r ev)
  show ?thesis
  proof (cases r)
    case (Inl e)
    with Pair show ?thesis by (simp add: ethernet_active_def and_then_def)
  next
    case (Inr iface)
    show ?thesis
    proof (cases "fst (run_command w list_ports_cmd (h @ ev))")
      case (Inl e)
      with Pair \<open>r = Inr iface\<close> show ?thesis
        by (simp add: ethernet_active_def and_then_def run_command_pair [OF Inl])
    next
      case (Inr ports_output)
      with Pair \<open>r = Inr iface\<close> show ?thesis
        by (simp add: ethernet_active_def and_then_def ret_def run_command_pair [OF Inr]
            split: prod.splits)
    qed
  qed
qed

lemma ethernet_ports_member:
  "port \<in> set (ethernet_ports wifi_iface lines) \<Longrightarrow>
   Some port \<noteq> wifi_iface \<and> port \<noteq> ''lo0'' \<and> startswith port ''en''
   \<and> (\<exists>line \<in> set lines. startswith line ''Device:''
         \<and> port = py_strip (py_replace line ''Device:'' []))"
  by (induction lines) (auto simp: Let_def split: if_splits)

lemma check_ports_true:
  "fst (check_ports w g ports h) = Inr True \<Longrightarrow>
   \<exists>port \<in> set ports. \<exists>ev out.
     fst (run_command w (ifconfig_cmd port) (h @ ev)) = Inr out
     \<and> py_in ''status: active'' out \<and> py_in ''inet '' out"
proof (induction ports arbitrary: h)
  case Nil
  then show ?case by (simp add: ret_def)
next
  case (Cons port rest)
  show ?case
  proof (cases "fst (run_command w (ifconfig_cmd port) h)")
    case (Inl e)
    with Cons.prems show ?thesis
      by (simp add: and_then_def run_command_pair [OF Inl])
  next
    case (Inr out)
    show ?thesis
    proof (cases "py_in ''status: active'' out \<and> py_in ''inet '' out")
      case True
      with Inr have "fst (run_command w (ifconfig_cmd port) (h @ [])) = Inr out
        \<and> py_in ''status: active'' out \<and> py_in ''inet '' out" by simp
      then show ?thesis by (meson list.set_intros(1))
    next
      case False
      with Cons.prems Inr
      have "fst (check_ports w g rest (h @ [Exec (ifconfig_cmd port)])) = Inr True"
        by (auto simp: and_then_def run_command_pair [OF Inr] split: prod.splits)
      from Cons.IH [OF this] obtain p ev out' where "p \<in> set rest"
        and "fst (run_command w (ifconfig_cmd p) ((h @ [Exec (ifconfig_cmd port)]) @ ev)) = Inr out'"
        and "py_in ''status: active'' out'" and "py_in ''inet '' out'"
        by blast
      then have "p \<in> set (port # rest)
        \<and> fst (run_command w (ifconfig_cmd p) (h @ ([Exec (ifconfig_cmd port)] @ ev))) = Inr out'
        \<and> py_in ''status: active'' out' \<and> py_in ''inet '' out'" by simp
      then show ?thesis by blast
    qed
  qed
qed

lemma ethernet_active_true:
  assumes "fst (ethernet_active w g h) = Inr True"
  shows "\<exists>wifi_iface listing port ev out.
     fst (get_wifi_interface w g h) = Inr wifi_iface
     \<and> fst (run_command w list_ports_cmd (h @ snd (get_wifi_interface w g h))) = Inr listing
     \<and> port \<in> set (ethernet_ports wifi_iface (splitlines listing))
     \<and> Some port \<noteq> wifi_iface \<and> port \<noteq> ''lo0'' \<and> startswith port ''en''
     \<and> fst (run_command w (ifconfig_cmd port) (h @ ev)) = Inr out
     \<and> py_in ''status: active'' out \<and> py_in ''inet '' out"
proof -
  obtain r ev0 where gwi: "get_wifi_interface w g h = (r, ev0)"
    by (cases "get_wifi_interface w g h")
  from assms gwi obtain wifi_iface where r: "r = Inr wifi_iface"
    by (cases r) (simp_all add: ethernet_active_cases)
  from assms gwi r obtain listing where
    listing: "fst (run_command w list_ports_cmd (h @ ev0)) = Inr listing"
    by (cases "fst (run_command w list_ports_cmd (h @ ev0))")
      (simp_all add: ethernet_active_cases)
  from assms gwi r listing
  have "fst (check_ports w g (ethernet_ports wifi_iface (splitlines listing))
               (h @ ev0 @ [Exec list_ports_cmd])) = Inr True"
    by (simp add: ethernet_active_cases split: if_splits)
  from check_ports_true [OF this] obtain port ev out
    where port: "port \<in> set (ethernet_ports wifi_iface (splitlines listing))"
      and out: "fst (run_command w (ifconfig_cmd port) ((h @ ev0 @ [Exec list_ports_cmd]) @ ev))
                  = Inr out"
      and act: "py_in ''status: active'' out" "py_in ''inet '' out"
    by blast
  from out have "fst (run_command w (ifconfig_cmd port) (h @ (ev0 @ [Exec list_ports_cmd] @ ev)))
                  = Inr out" by simp
  with gwi r listing port act ethernet_ports_member [OF port] show ?thesis
    by (metis fst_conv snd_conv)
qed

lemmas probe_eval =
  get_wifi_interface_def and_then_def run_command_def try_except_def check_output_def ret_def
  table_world_def list_ports_cmd_def ifconfig_cmd_def wifi_status_cmd_def squote_def
  ports_listing_def lines_text_def string_eval truthy_def log_def log_events_def
  home_globals_def

text \<open>The probes in a world in which every child process runs to an exit status.\<close>

lemma run_command_returns:
  assumes "\<forall>h c. \<exists>rc out. run_process w h c = Exited rc out"
  shows "\<exists>out. fst (run_command w c h) = Inr out"
proof -
  obtain rc out where "run_process w h c = Exited rc out" using assms by blast
  then show ?thesis by (simp add: run_command_exited)
qed

lemma get_wifi_interface_returns:
  assumes "\<forall>h c. \<exists>rc out. run_process w h c = Exited rc out"
  shows "\<exists>i. fst (get_wifi_interface w g h) = Inr i"
proof -
  obtain out where "fst (run_command w list_ports_cmd h) = Inr out"
    using run_command_returns [OF assms] by blast
  then show ?thesis by (simp add: get_wifi_interface_cases)
qed



lemma check_ports_returns:
  assumes "\<forall>h c. \<exists>rc out. run_process w h c = Exited rc out"
  shows "\<exists>b. fst (check_ports w g ports h) = Inr b"
proof (induction ports arbitrary: h)
  case Nil
  show ?case by (auto simp: ret_def)
next
  case (Cons port rest)
  obtain out where out: "fst (run_command w (ifconfig_cmd port) h) = Inr out"
    using run_command_returns [OF assms] by blast
  obtain b where "fst (check_ports w g rest (h @ [Exec (ifconfig_cmd port)])) = Inr b"
    using Cons.IH by blast
  then show ?case
    by (auto simp: and_then_def run_command_pair [OF out] log_bound ret_def split: prod.splits)
qed

lemma ethernet_active_returns:
  assumes "\<forall>h c. \<exists>rc out. run_process w h c = Exited rc out"
  shows "\<exists>b. fst (ethernet_active w g h) = Inr b"
proof -
  obtain i ev where gwi: "get_wifi_interface w g h = (Inr i, ev)"
    using get_wifi_interface_returns [OF assms, of g h]
    by (cases "get_wifi_interface w g h") auto
  obtain out where out: "fst (run_command w list_ports_cmd (h @ ev)) = Inr out"
    using run_command_returns [OF assms] by blast
  from gwi out check_ports_returns [OF assms] show ?thesis
    by (auto simp: ethernet_active_cases)
qed




text \<open>
  C10. \<^verbatim>\<open>ethernet_active\<close> returns \<^verbatim>\<open>True\<close> only when a device of the port listing that
  is not the detected Wi-Fi interface, is not \<^verbatim>\<open>lo0\<close> and has a name starting with
  \<^verbatim>\<open>en\<close> prints both \<^verbatim>\<open>status: active\<close> and \<^verbatim>\<open>inet \<close> in its \<^verbatim>\<open>ifconfig\<close> output.
  When no device prints \<^verbatim>\<open>inet \<close> the result is not \<^verbatim>\<open>True\<close>, and it is \<^verbatim>\<open>False\<close> when
  every child process runs to an exit status. \<^verbatim>\<open>wifi_active\<close> returns whether the output
  of its link status query holds \<^verbatim>\<open>status: active\<close>, and nothing else.
\<close>

theorem ethernet_needs_address_wifi_only_link:
  "(fst (ethernet_active w g h) = Inr True \<longrightarrow>
      (\<exists>wifi_iface listing port ev out.
         fst (get_wifi_interface w g h) = Inr wifi_iface
         \<and> fst (run_command w list_ports_cmd (h @ snd (get_wifi_interface w g h))) = Inr listing
         \<and> port \<in> set (ethernet_ports wifi_iface (splitlines listing))
         \<and> Some port \<noteq> wifi_iface \<and> port \<noteq> ''lo0'' \<and> startswith port ''en''
         \<and> fst (run_command w (ifconfig_cmd port) (h @ ev)) = Inr out
         \<and> py_in ''status: active'' out \<and> py_in ''inet '' out))
   \<and> ((\<forall>port h' out. fst (run_command w (ifconfig_cmd port) h') = Inr out
          \<longrightarrow> \<not> py_in ''inet '' out)
        \<longrightarrow> fst (ethernet_active w g h) \<noteq> Inr True
            \<and> ((\<forall>h' c. \<exists>rc out. run_process w h' c = Exited rc out)
                 \<longrightarrow> fst (ethernet_active w g h) = Inr False))
   \<and> (fst (get_wifi_interface w g h) = Inr (Some i)
        \<and> fst (run_command w (wifi_status_cmd i) (h @ snd (get_wifi_interface w g h)))
            = Inr status
        \<longrightarrow> fst (wifi_active w g h) = Inr (py_in ''status: active'' status))"
proof (intro conjI impI)
  assume "fst (ethernet_active w g h) = Inr True"
  then show "\<exists>wifi_iface listing port ev out.
         fst (get_wifi_interface w g h) = Inr wifi_iface
         \<and> fst (run_command w list_ports_cmd (h @ snd (get_wifi_interface w g h))) = Inr listing
         \<and> port \<in> set (ethernet_ports wifi_iface (splitlines listing))
         \<and> Some port \<noteq> wifi_iface \<and> port \<noteq> ''lo0'' \<and> startswith port ''en''
         \<and> fst (run_command w (ifconfig_cmd port) (h @ ev)) = Inr out
         \<and> py_in ''status: active'' out \<and> py_in ''inet '' out"
    by (rule ethernet_active_true)
next
  assume none: "\<forall>port h' out. fst (run_command w (ifconfig_cmd port) h') = Inr out
          \<longrightarrow> \<not> py_in ''inet '' out"
  show not_true: "fst (ethernet_active w g h) \<noteq> Inr True"
  proof
    assume "fst (ethernet_active w g h) = Inr True"
    from ethernet_active_true [OF this] none show False by blast
  qed
  assume "\<forall>h' c. \<exists>rc out. run_process w h' c = Exited rc out"
  from ethernet_active_returns [OF this] obtain b where "fst (ethernet_active w g h) = Inr b"
    by blast
  with not_true show "fst (ethernet_active w g h) = Inr False" by (cases b) simp_all
next
  assume "fst (get_wifi_interface w g h) = Inr (Some i)
        \<and> fst (run_command w (wifi_status_cmd i) (h @ snd (get_wifi_interface w g h)))
            = Inr status"
  then show "fst (wifi_active w g h) = Inr (py_in ''status: active'' status)"
    by (cases "get_wifi_interface w g h") (simp add: wifi_active_cases)
qed

lemma world_link_only_wifi_interface:
  "get_wifi_interface world_link_only home_globals [] = (Inr (Some ''en0''), [Exec list_ports_cmd])"
  by (simp add: probe_eval world_link_only_def)

lemma world_link_only_status:
  "fst (run_command world_link_only (wifi_status_cmd ''en0'') h) = Inr ''status: active''"
  by (simp add: probe_eval world_link_only_def)

lemma world_link_only_no_address:
  "fst (run_command world_link_only (ifconfig_cmd port) h) = Inr out \<Longrightarrow> \<not> py_in ''inet '' out"
  by (auto simp: probe_eval world_link_only_def split: if_splits)

lemma world_wired_ethernet:
  "fst (ethernet_active world_wired home_globals []) = Inr True"
  by (simp add: ethernet_active_def probe_eval world_wired_def)

theorem ethernet_needs_address_wifi_only_link_witness:
  "fst (ethernet_active world_wired home_globals []) = Inr True
   \<and> fst (ethernet_active world_link_only home_globals []) \<noteq> Inr True
   \<and> fst (wifi_active world_link_only home_globals []) = Inr True"
  using ethernet_needs_address_wifi_only_link
      [of world_link_only home_globals "[]" "''en0''" "''status: active''"]
    world_link_only_wifi_interface world_link_only_status world_link_only_no_address
    world_wired_ethernet
  by (simp add: startswith_def)

subsection \<open>\<^verbatim>\<open>validate_config\<close>\<close>

lemma and_then_Inr:
  "fst (and_then m f h) = Inr y \<Longrightarrow> \<exists>x ev. m h = (Inr x, ev) \<and> fst (f x (h @ ev)) = Inr y"
  by (auto simp: and_then_def split: prod.splits sum.splits)

lemma fill_defaults_unbound:
  "fst (fill_defaults w None ds config h) =
     (if \<forall>k \<in> fst ` set ds. map_of config k \<noteq> None then Inr config
      else Inl (NameError ''name 'LOG_FILE' is not defined''))"
proof (induction ds arbitrary: config h)
  case Nil
  show ?case by (simp add: ret_def)
next
  case (Cons d ds)
  obtain key dv where d: "d = (key, dv)" by (cases d)
  show ?case
  proof (cases "map_of config key")
    case None
    with d show ?thesis by (simp add: and_then_def log_def raise_def)
  next
    case (Some v)
    with d Cons.IH [of config h] show ?thesis by simp
  qed
qed

lemma fill_defaults_keeps:
  "fst (fill_defaults w lf ds config h) = Inr c \<Longrightarrow> map_of config k = Some v \<Longrightarrow>
   map_of c k = Some v"
proof (induction ds arbitrary: config h)
  case Nil
  then show ?case by (simp add: ret_def)
next
  case (Cons d ds)
  obtain key dv where d: "d = (key, dv)" by (cases d)
  show ?case
  proof (cases "map_of config key")
    case (Some u)
    with Cons.prems d have "fst (fill_defaults w lf ds config h) = Inr c" by simp
    with Cons.IH Cons.prems(2) show ?thesis by blast
  next
    case None
    with Cons.prems(2) have ne: "k \<noteq> key" by auto
    from None Cons.prems(1) d
    have "fst (and_then (log w lf (missing_key_msg key dv))
                 (\<lambda>_. fill_defaults w lf ds (AList.update key dv config)) h) = Inr c"
      by simp
    from and_then_Inr [OF this] obtain ev where
      "fst (fill_defaults w lf ds (AList.update key dv config) (h @ ev)) = Inr c"
      by blast
    moreover have "map_of (AList.update key dv config) k = Some v"
      using Cons.prems(2) ne by (simp add: update_conv')
    ultimately show ?thesis using Cons.IH by blast
  qed
qed

lemma fill_defaults_fills:
  "fst (fill_defaults w lf ds config h) = Inr c \<Longrightarrow> k \<in> fst ` set ds \<Longrightarrow>
   map_of c k \<noteq> None"
proof (induction ds arbitrary: config h)
  case Nil
  then show ?case by simp
next
  case (Cons d ds)
  obtain key dv where d: "d = (key, dv)" by (cases d)
  show ?case
  proof (cases "map_of config key")
    case (Some v)
    with Cons.prems(1) d
    have rest: "fst (fill_defaults w lf ds config h) = Inr c" by simp
    show ?thesis
    proof (cases "k = key")
      case True
      with fill_defaults_keeps [OF rest Some] show ?thesis by simp
    next
      case False
      with Cons.prems(2) d have "k \<in> fst ` set ds" by auto
      with Cons.IH [OF rest] show ?thesis by blast
    qed
  next
    case None
    from None Cons.prems(1) d
    have "fst (and_then (log w lf (missing_key_msg key dv))
                 (\<lambda>_. fill_defaults w lf ds (AList.update key dv config)) h) = Inr c"
      by simp
    from and_then_Inr [OF this] obtain ev where
      rest: "fst (fill_defaults w lf ds (AList.update key dv config) (h @ ev)) = Inr c"
      by blast
    show ?thesis
    proof (cases "k = key")
      case True
      have "map_of (AList.update key dv config) key = Some dv" by (simp add: update_conv')
      from fill_defaults_keeps [OF rest this] True show ?thesis by simp
    next
      case False
      with Cons.prems(2) d have "k \<in> fst ` set ds" by auto
      with Cons.IH [OF rest] show ?thesis by blast
    qed
  qed
qed

lemma fully_defaulted_update_log_file:
  "fully_defaulted config \<Longrightarrow> fully_defaulted (AList.update ''log_file'' v config)"
  by (auto simp: fully_defaulted_def has_key_def ssid_map_is_dict_def update_conv')

lemma and_then_Inl: "fst (m h) = Inl e \<Longrightarrow> fst (and_then m f h) = Inl e"
  by (cases "m h") (simp add: and_then_def)

lemma fill_defaults_present:
  "\<forall>k \<in> fst ` set ds. map_of config k \<noteq> None \<Longrightarrow>
   fill_defaults w lf ds config h = (Inr config, [])"
proof (induction ds)
  case Nil
  show ?case by (simp add: ret_def)
next
  case (Cons d ds)
  obtain key dv where d: "d = (key, dv)" by (cases d)
  with Cons show ?case by auto
qed

lemma check_ssid_location_map_result:
  assumes "fst (check_ssid_location_map w lf config h) = Inr c"
  shows "ssid_map_is_dict c \<and> (map_of config k \<noteq> None \<longrightarrow> map_of c k \<noteq> None)"
proof (cases "map_of config ''ssid_location_map''")
  case None
  with assms show ?thesis by (simp add: check_ssid_location_map_def raise_def)
next
  case (Some v)
  show ?thesis
  proof (cases "\<exists>d. v = PDict d")
    case True
    with Some assms show ?thesis
      by (auto simp: check_ssid_location_map_def ret_def ssid_map_is_dict_def)
  next
    case False
    with Some have "check_ssid_location_map w lf config =
        and_then
            (log w lf
               (''Error: '' @ squote @ ''ssid_location_map'' @ squote
                @ '' must be an object/dictionary''))
            (\<lambda>_. ret (AList.update ''ssid_location_map'' (PDict []) config))"
      by (cases v) (simp_all add: check_ssid_location_map_def)
    with assms and_then_Inr
    have "c = AList.update ''ssid_location_map'' (PDict []) config"
      by (fastforce simp: ret_def)
    then show ?thesis
      by (simp add: ssid_map_is_dict_def update_conv')
  qed
qed

lemma check_log_directory_result:
  assumes "fst (check_log_directory fallback_name w lf config h) = Inr c"
  shows "c = config
     \<or> c = AList.update ''log_file'' (PStr (path_join (script_dir w) fallback_name)) config"
proof (cases "map_of config ''log_file''")
  case None
  with assms show ?thesis by (simp add: check_log_directory_def raise_def)
next
  case (Some v)
  show ?thesis
  proof (cases "\<exists>s. v = PStr s")
    case False
    with Some assms show ?thesis
      by (cases v) (simp_all add: check_log_directory_def raise_def)
  next
    case True
    then obtain log_file_value where v: "v = PStr log_file_value" by blast
    show ?thesis
    proof (cases "dirname log_file_value \<noteq> [] \<and> \<not> path_exists w h (dirname log_file_value)")
      case False
      with Some v assms show ?thesis
        by (auto simp: check_log_directory_def ret_def Let_def)
    next
      case True
      with Some v assms show ?thesis
        by (simp add: check_log_directory_def Let_def try_except_def and_then_def ret_def
            split: prod.splits sum.splits if_splits)
    qed
  qed
qed

text \<open>
  Whenever \<^verbatim>\<open>validate_config\<close> returns, of either file, its result holds the four keys
  and a dictionary under \<^verbatim>\<open>ssid_location_map\<close>.
\<close>

lemma validate_config_with_result:
  assumes "fst (validate_config_with default_log_file fallback_name w lf config0 h) = Inr c"
  shows "fully_defaulted c"
proof -
  from and_then_Inr [OF assms [unfolded validate_config_with_def]]
  obtain config1 ev1 where
    fill: "fill_defaults w lf (defaults default_log_file) config0 h = (Inr config1, ev1)"
    and rest: "fst (and_then (check_ssid_location_map w lf config1)
                 (check_log_directory fallback_name w lf) (h @ ev1)) = Inr c"
    by blast
  from and_then_Inr [OF rest] obtain config ev2 where
    ssid: "check_ssid_location_map w lf config1 (h @ ev1) = (Inr config, ev2)"
    and dir: "fst (check_log_directory fallback_name w lf config ((h @ ev1) @ ev2)) = Inr c"
    by blast
  from fill have f: "fst (fill_defaults w lf (defaults default_log_file) config0 h) = Inr config1"
    by simp
  have keys1: "map_of config1 ''ssid_location_map'' \<noteq> None"
    "map_of config1 ''default_wifi_location'' \<noteq> None"
    "map_of config1 ''ethernet_location'' \<noteq> None" "map_of config1 ''log_file'' \<noteq> None"
    using fill_defaults_fills [OF f] by (simp_all add: defaults_def)
  from ssid have s: "fst (check_ssid_location_map w lf config1 (h @ ev1)) = Inr config" by simp
  have "fully_defaulted config"
    using check_ssid_location_map_result [OF s] keys1
    by (simp add: fully_defaulted_def has_key_def)
  with check_log_directory_result [OF dir] fully_defaulted_update_log_file show ?thesis
    by auto
qed

text \<open>
  At the start of the module, where it is called, it does not return when a key is
  missing: the warning it logs for the missing key reads \<^verbatim>\<open>LOG_FILE\<close> before the module
  has bound it.
\<close>

lemma validate_config_with_unbound_missing:
  assumes "\<not> (\<forall>k \<in> fst ` set (defaults default_log_file). map_of config0 k \<noteq> None)"
  shows "fst (validate_config_with default_log_file fallback_name w None config0 h)
     = Inl (NameError ''name 'LOG_FILE' is not defined'')"
proof -
  have "fst (fill_defaults w None (defaults default_log_file) config0 h)
     = Inl (NameError ''name 'LOG_FILE' is not defined'')"
    using assms by (auto simp: fill_defaults_unbound)
  then show ?thesis
    unfolding validate_config_with_def by (rule and_then_Inl)
qed

lemma module_start_missing_key:
  assumes "\<not> (has_key loaded ''ssid_location_map'' \<and> has_key loaded ''default_wifi_location''
             \<and> has_key loaded ''ethernet_location'' \<and> has_key loaded ''log_file'')"
  shows "fst (module_start w loaded h) = Inl (NameError ''name 'LOG_FILE' is not defined'')
    \<and> fst (module_start_script w loaded h)
        = Inl (NameError ''name 'LOG_FILE' is not defined'')"
  unfolding module_start_def module_start_script_def validate_config_def
    validate_config_script_def
  using assms
  by (auto intro!: validate_config_with_unbound_missing simp: defaults_def has_key_def)

lemma validate_config_with_log_file_number:
  "fst (validate_config_with default_log_file fallback_name w lf
            [(''ssid_location_map'', PDict []), (''default_wifi_location'', PStr ''Automatic''),
             (''ethernet_location'', PStr ''Wired''), (''log_file'', PInt 5)] h)
       = Inl (TypeError ''expected str, bytes or os.PathLike object, not int'')"
proof -
  have "fill_defaults w lf (defaults default_log_file)
          [(''ssid_location_map'', PDict []), (''default_wifi_location'', PStr ''Automatic''),
           (''ethernet_location'', PStr ''Wired''), (''log_file'', PInt 5)] h
        = (Inr [(''ssid_location_map'', PDict []), (''default_wifi_location'', PStr ''Automatic''),
                (''ethernet_location'', PStr ''Wired''), (''log_file'', PInt 5)], [])"
    by (rule fill_defaults_present) (simp add: defaults_def)
  then show ?thesis
    by (simp add: validate_config_with_def and_then_def check_ssid_location_map_def
        check_log_directory_def ret_def raise_def)
qed

text \<open>
  C8. \<^verbatim>\<open>validate_config\<close> does not return a configuration for every dictionary. Called
  at the start of the module with the empty dictionary it raises \<^verbatim>\<open>NameError\<close> in both
  files, in place of filling in the four defaults; and with a \<^verbatim>\<open>log_file\<close> that is no
  string (here the number 5) it raises \<^verbatim>\<open>TypeError\<close>, whatever \<^verbatim>\<open>LOG_FILE\<close> is bound
  to.
\<close>

theorem validate_config_raises:
  "fst (module_start w [] h) = Inl (NameError ''name 'LOG_FILE' is not defined'')
   \<and> fst (module_start_script w [] h) = Inl (NameError ''name 'LOG_FILE' is not defined'')
   \<and> fst (validate_config w lf
            [(''ssid_location_map'', PDict []), (''default_wifi_location'', PStr ''Automatic''),
             (''ethernet_location'', PStr ''Wired''), (''log_file'', PInt 5)] h)
       = Inl (TypeError ''expected str, bytes or os.PathLike object, not int'')"
  using module_start_missing_key [of "[]" w h]
  by (simp add: has_key_def validate_config_def validate_config_with_log_file_number)

end
